theory Spec2Isabelle
  imports Main
begin

section \<open>Python strings\<close>

text \<open>
  A Python \<open>str\<close> is modelled as the list of its code points. Literals of the program
  are ASCII and are written as Isabelle strings, which \<open>str\<close> turns into code points.
\<close>

type_synonym ustring = "nat list"

definition str :: "string \<Rightarrow> ustring" where
  "str s = map of_char s"

text \<open>The whitespace of \<open>str.strip()\<close> and \<open>str.split()\<close>, which is that of
  \<open>str.isspace\<close>: the ASCII controls 0x09 to 0x0D and 0x1C to 0x1F, the space, and the
  Unicode code points U+0085, U+00A0, U+1680, U+2000 to U+200A, U+2028, U+2029, U+202F,
  U+205F and U+3000.\<close>

definition is_space :: "nat \<Rightarrow> bool" where
  "is_space c =
     ((9 \<le> c \<and> c \<le> 13) \<or> (28 \<le> c \<and> c \<le> 32) \<or> c = 0x85 \<or> c = 0xA0 \<or> c = 0x1680
      \<or> (0x2000 \<le> c \<and> c \<le> 0x200A) \<or> c = 0x2028 \<or> c = 0x2029 \<or> c = 0x202F
      \<or> c = 0x205F \<or> c = 0x3000)"

text \<open>\<open>s.strip()\<close>: leading and trailing whitespace removed.\<close>

definition py_strip :: "ustring \<Rightarrow> ustring" where
  "py_strip s = rev (dropWhile is_space (rev (dropWhile is_space s)))"

text \<open>\<open>s.rstrip(chars)\<close>: every trailing character that occurs in \<open>chars\<close> removed.\<close>

definition py_rstrip_chars :: "ustring \<Rightarrow> ustring \<Rightarrow> ustring" where
  "py_rstrip_chars chars s = rev (dropWhile (\<lambda>c. c \<in> set chars) (rev s))"

text \<open>
  \<open>s.lower()\<close>, as far as the program can tell. The letters A to Z go to a to z. Two
  code points outside ASCII have a lower case with an ASCII letter in it: U+0130 gives
  \<open>i\<close> followed by U+0307, and U+212A gives \<open>k\<close>. Every other code point outside
  ASCII is left as it is, where Python may put other code points outside ASCII in its
  place: the program only looks for ASCII keywords in a lowered text, and compares it with
  them, and these tests cannot tell the two apart.
\<close>

definition lower_char :: "nat \<Rightarrow> nat list" where
  "lower_char c =
     (if 65 \<le> c \<and> c \<le> 90 then [c + 32]
      else if c = 0x130 then [0x69, 0x307]
      else if c = 0x212A then [0x6B]
      else [c])"

definition py_lower :: "ustring \<Rightarrow> ustring" where
  "py_lower s = concat (map lower_char s)"

text \<open>\<open>s.startswith(p)\<close>, \<open>s.endswith(p)\<close> and the substring test \<open>p in s\<close>.\<close>

definition py_startswith :: "ustring \<Rightarrow> ustring \<Rightarrow> bool" where
  "py_startswith s p = (take (length p) s = p)"

definition py_endswith :: "ustring \<Rightarrow> ustring \<Rightarrow> bool" where
  "py_endswith s p = (length p \<le> length s \<and> drop (length s - length p) s = p)"

fun py_in :: "ustring \<Rightarrow> ustring \<Rightarrow> bool" where
  "py_in p [] = (p = [])"
| "py_in p (c # cs) = (py_startswith (c # cs) p \<or> py_in p cs)"

text \<open>\<open>s.split(sep)\<close> for a non-empty separator: the pieces between the occurrences of
  \<open>sep\<close>, found from left to right without overlap. The second argument collects the
  current piece in reverse. (Python raises on an empty separator; the program only
  splits on the fence.)\<close>

function py_split_acc :: "ustring \<Rightarrow> ustring \<Rightarrow> ustring \<Rightarrow> ustring list" where
  "py_split_acc sep acc [] = [rev acc]"
| "py_split_acc sep acc (c # cs) =
     (if sep \<noteq> [] \<and> py_startswith (c # cs) sep
      then rev acc # py_split_acc sep [] (drop (length sep) (c # cs))
      else py_split_acc sep (c # acc) cs)"
  by pat_completeness auto
termination
  by (relation "measure (\<lambda>(sep, acc, s). length s)") (auto simp: neq_Nil_conv)

definition py_split :: "ustring \<Rightarrow> ustring \<Rightarrow> ustring list" where
  "py_split s sep = py_split_acc sep [] s"

text \<open>\<open>s.split()\<close>: the maximal runs of non-whitespace characters.\<close>

fun py_words_acc :: "ustring \<Rightarrow> ustring \<Rightarrow> ustring list" where
  "py_words_acc acc [] = (if acc = [] then [] else [rev acc])"
| "py_words_acc acc (c # cs) =
     (if is_space c
      then (if acc = [] then py_words_acc [] cs else rev acc # py_words_acc [] cs)
      else py_words_acc (c # acc) cs)"

definition py_words :: "ustring \<Rightarrow> ustring list" where
  "py_words s = py_words_acc [] s"

text \<open>Truth value of an optional string, as \<open>if err:\<close> tests it: \<open>None\<close> and the empty
  string are false.\<close>

fun truthy :: "ustring option \<Rightarrow> bool" where
  "truthy None = False"
| "truthy (Some s) = (s \<noteq> [])"

section \<open>The schema description\<close>

text \<open>The text given to the model with every request, as the source has it.\<close>

definition SCHEMA_DESCRIPTION :: ustring where
  "SCHEMA_DESCRIPTION = concat
     [(str ''\<newline>''),
      (str ''You are an expert SQL assistant for a SQLite database.\<newline>''),
      (str ''\<newline>''),
      (str ''Current database details:\<newline>''),
      (str ''- There is one main table named 'students'.\<newline>''),
      (str ''\<newline>''),
      (str ''Table: students\<newline>''),
      (str ''Columns:\<newline>''),
      (str ''- id (INTEGER, primary key)\<newline>''),
      (str ''- name (TEXT): student name\<newline>''),
      (str ''- dept (TEXT): department, e.g., 'CSE', 'ECE', 'EEE', 'IT', 'MECH'\<newline>''),
      (str ''- year (INTEGER): year of study, 1 to 4\<newline>''),
      (str ''- city (TEXT): city name, e.g., 'Chennai', 'Coimbatore', 'Madurai'\<newline>''),
      (str ''- cgpa (REAL): CGPA out of 10\<newline>''),
      (str ''\<newline>''),
      (str ''Instructions:\<newline>''),
      (str ''- Your job is to convert the user's natural language request into ONE valid SQL statement.\<newline>''),
      (str ''- The SQL must be compatible with SQLite.\<newline>''),
      (str ''- You MAY generate:\<newline>''),
      (str ''  - SELECT statements (to read data)\<newline>''),
      (str ''  - INSERT, UPDATE, DELETE (to modify data)\<newline>''),
      (str ''  - CREATE TABLE and ALTER TABLE (to change schema)\<newline>''),
      (str ''- Prefer single-statement queries (no multiple statements separated by semicolons).\<newline>''),
      (str ''- Use existing tables and columns unless the user clearly asks you to create/alter them.\<newline>''),
      (str ''- Be careful with destructive operations like DROP TABLE or DELETE; only use them if the user explicitly asks.\<newline>''),
      (str ''- Do NOT include explanations, comments, or extra text.\<newline>''),
      (str ''- Do NOT wrap the SQL in markdown or ``` fences.\<newline>''),
      (str ''- Output ONLY the raw SQL statement as plain text.\<newline>'')]"

section \<open>The text-completion service\<close>

text \<open>
  An exception is modelled by the text \<open>str(e)\<close> gives; only subclasses of
  \<open>Exception\<close> are modelled, which is what \<open>except Exception\<close> catches.
  A value of type \<open>pyexc + 'a\<close> is the result of a call that may raise.
\<close>

datatype pyexc = PyException ustring

fun str_of_exc :: "pyexc \<Rightarrow> ustring" where
  "str_of_exc (PyException m) = m"

text \<open>
  \<open>ollama.chat(model, messages)\<close> with a system and a user message. The service is a
  parameter: it answers a request with the \<open>content\<close> of the reply, or the call (or
  the reading of the reply) raises. The requests sent are logged, oldest first.
\<close>

record chat_request =
  model :: ustring
  system_content :: ustring
  user_content :: ustring

type_synonym llm = "chat_request \<Rightarrow> pyexc + ustring"

text \<open>What \<open>nl_to_sql\<close> and \<open>fix_sql\<close> return: \<open>(sql, None)\<close> or \<open>(None, message)\<close>.
  Every message starts with a literal, so it is never empty and \<open>if err:\<close> in the
  caller tests for the second form.\<close>

datatype gen_result = Sql ustring | GenError ustring

section \<open>Cleaning and validating a completion\<close>

text \<open>The condition of the list comprehension: the lower-cased fragment contains one
  of the seven keywords.\<close>

definition bears_keyword :: "ustring \<Rightarrow> bool" where
  "bears_keyword p =
     (py_in (str ''select'') (py_lower p) \<or> py_in (str ''insert'') (py_lower p)
      \<or> py_in (str ''update'') (py_lower p) \<or> py_in (str ''delete'') (py_lower p)
      \<or> py_in (str ''create'') (py_lower p) \<or> py_in (str ''alter'') (py_lower p)
      \<or> py_in (str ''drop'') (py_lower p))"

text \<open>\<open>if "```" in raw: ...\<close>: split on the fence, keep the trimmed fragments that
  bear a keyword, take the first one if there is any.\<close>

definition candidates :: "ustring \<Rightarrow> ustring list" where
  "candidates raw = map py_strip (filter bears_keyword (py_split raw (str ''```'')))"

definition strip_fences :: "ustring \<Rightarrow> ustring" where
  "strip_fences raw =
     (if py_in (str ''```'') raw
      then (case candidates raw of [] \<Rightarrow> raw | c # _ \<Rightarrow> c)
      else raw)"

text \<open>\<open>sql = raw.strip()\<close> after the fence step: the statement before the terminator
  is looked at.\<close>

definition fence_cleaned :: "ustring \<Rightarrow> ustring" where
  "fence_cleaned raw = py_strip (strip_fences raw)"

text \<open>\<open>if sql.endswith(";"): sql = sql[:-1]\<close>.\<close>

definition drop_terminator :: "ustring \<Rightarrow> ustring" where
  "drop_terminator sql = (if py_endswith sql (str '';'') then butlast sql else sql)"

text \<open>The cleaned statement, from the \<open>content\<close> of the reply.\<close>

definition cleaned :: "ustring \<Rightarrow> ustring" where
  "cleaned content = drop_terminator (fence_cleaned (py_strip content))"

text \<open>\<open>sql.split()[0].lower() if sql else ""\<close>; indexing an empty list raises.\<close>

definition first_word :: "ustring \<Rightarrow> pyexc + ustring" where
  "first_word sql =
     (if sql \<noteq> []
      then (case py_words sql of
              [] \<Rightarrow> Inl (PyException (str ''list index out of range''))
            | w # _ \<Rightarrow> Inr (py_lower w))
      else Inr [])"

definition statement_keywords :: "ustring list" where
  "statement_keywords =
     [(str ''select''), (str ''insert''), (str ''update''), (str ''delete''), (str ''create''), (str ''alter''), (str ''drop''), (str ''pragma'')]"

text \<open>The part of the \<open>try\<close> block after the call, the same in \<open>nl_to_sql\<close> and
  \<open>fix_sql\<close> but for the message.\<close>

definition check_completion :: "ustring \<Rightarrow> ustring \<Rightarrow> pyexc + gen_result" where
  "check_completion invalid_msg content =
     (let sql = cleaned content in
      case first_word sql of
        Inl e \<Rightarrow> Inl e
      | Inr w \<Rightarrow>
          if w \<notin> set statement_keywords then Inr (GenError (invalid_msg @ sql))
          else Inr (Sql sql))"

section \<open>\<open>nl_to_sql\<close>\<close>

definition nl_prompt :: "ustring \<Rightarrow> ustring" where
  "nl_prompt user_question =
     SCHEMA_DESCRIPTION @ (str ''\<newline>\<newline>User request: '') @ user_question
       @ (str ''\<newline>\<newline>SQL statement:\<newline>'')"

definition nl_request :: "ustring \<Rightarrow> chat_request" where
  "nl_request text =
     \<lparr>model = (str ''mistral''),
      system_content =
        (str ''You convert natural language requests into single SQL statements for a SQLite database.''),
      user_content = nl_prompt (py_strip text)\<rparr>"

definition nl_to_sql_try :: "llm \<Rightarrow> ustring \<Rightarrow> pyexc + gen_result" where
  "nl_to_sql_try chat text =
     (case chat (nl_request text) of
        Inl e \<Rightarrow> Inl e
      | Inr content \<Rightarrow>
          check_completion
            (str ''Model did not return a valid SQL statement. It returned:\<newline>'') content)"

text \<open>The whole function, with the log of the requests sent to the service.\<close>

definition nl_to_sql :: "llm \<Rightarrow> ustring \<Rightarrow> chat_request list \<Rightarrow> gen_result \<times> chat_request list" where
  "nl_to_sql chat text log =
     (if text = [] \<or> py_strip text = []
      then (GenError (str ''Please type a question or command.''), log)
      else (case nl_to_sql_try chat text of
              Inl e \<Rightarrow> GenError ((str ''Error from LLM: '') @ str_of_exc e)
            | Inr r \<Rightarrow> r,
            log @ [nl_request text]))"

section \<open>\<open>fix_sql\<close>\<close>

definition fix_prompt :: "ustring \<Rightarrow> ustring \<Rightarrow> ustring \<Rightarrow> ustring" where
  "fix_prompt original_sql db_error user_request = concat
     [(str ''\<newline>You previously generated this SQL for a user request:\<newline>\<newline>''),
      (str ''User request:\<newline>''), user_request, (str ''\<newline>\<newline>''),
      (str ''Original SQL:\<newline>''), original_sql, (str ''\<newline>\<newline>''),
      (str ''When executing this SQL on SQLite, the following error occurred:\<newline>''),
      db_error, (str ''\<newline>\<newline>''),
      (str ''Database schema:\<newline>''), SCHEMA_DESCRIPTION, (str ''\<newline>\<newline>''),
      (str ''Your task:\<newline>''),
      (str ''- Return a corrected SQL statement that is valid for this schema and SQLite.\<newline>''),
      (str ''- Keep the query as close as possible to the user's intent.\<newline>''),
      (str ''- You may use SELECT, INSERT, UPDATE, DELETE, CREATE TABLE or ALTER TABLE.\<newline>''),
      (str ''- Do NOT modify or delete data unless the user clearly requested it.\<newline>''),
      (str ''- Do NOT include explanations or comments.\<newline>''),
      (str ''- Do NOT wrap the SQL in markdown or ``` fences.\<newline>''),
      (str ''- Output ONLY the fixed SQL statement.\<newline>'')]"

definition fix_request :: "ustring \<Rightarrow> ustring \<Rightarrow> ustring \<Rightarrow> chat_request" where
  "fix_request original_sql db_error user_request =
     \<lparr>model = (str ''mistral''),
      system_content = (str ''You fix invalid SQL statements for a SQLite database.''),
      user_content = fix_prompt original_sql db_error user_request\<rparr>"

definition fix_sql_try :: "llm \<Rightarrow> ustring \<Rightarrow> ustring \<Rightarrow> ustring \<Rightarrow> pyexc + gen_result" where
  "fix_sql_try chat original_sql db_error user_request =
     (case chat (fix_request original_sql db_error user_request) of
        Inl e \<Rightarrow> Inl e
      | Inr content \<Rightarrow>
          check_completion (str ''Fixed SQL is not a valid statement. It returned:\<newline>'') content)"

definition fix_sql ::
  "llm \<Rightarrow> ustring \<Rightarrow> ustring \<Rightarrow> ustring \<Rightarrow> chat_request list \<Rightarrow> gen_result \<times> chat_request list" where
  "fix_sql chat original_sql db_error user_request log =
     (case fix_sql_try chat original_sql db_error user_request of
        Inl e \<Rightarrow> GenError ((str ''Error from LLM during fix: '') @ str_of_exc e)
      | Inr r \<Rightarrow> r,
      log @ [fix_request original_sql db_error user_request])"

section \<open>The relational store\<close>

text \<open>
  The engine (\<open>sqlite3\<close> on \<open>students.db\<close>) is a parameter. The store is the
  content of the database file. A connection holds the state of its open transaction, or
  nothing when no transaction is open. Executing a statement is the engine's business: it
  may change the store at once (a statement run in autocommit mode; the \<open>sqlite3\<close>
  module opens a transaction only before a statement that starts with INSERT, UPDATE,
  DELETE or REPLACE) or change the state of the transaction only. \<open>commit\<close> writes the
  state of an open transaction to the store, and closing the connection drops it. Every
  call to the engine may raise. The cursor of an executed statement carries
  \<open>description\<close> (the column names, or \<open>None\<close> when the statement has no result set)
  and what \<open>fetchall\<close> will give.
\<close>

record 'c cursor =
  description :: "ustring list option"
  fetchall :: "pyexc + 'c list list"

record ('db, 'c) engine =
  connect :: "'db \<Rightarrow> pyexc option"
  execute :: "'db \<Rightarrow> 'db option \<Rightarrow> ustring \<Rightarrow> pyexc + ('c cursor \<times> 'db \<times> 'db option)"
  commit :: "'db \<Rightarrow> 'db option \<Rightarrow> pyexc option"
  close :: "'db \<Rightarrow> 'db option \<Rightarrow> pyexc option"

text \<open>The calls made to the engine are recorded, oldest first, and the connections
  opened and not closed are counted.\<close>

datatype db_event = Connect | Execute ustring | FetchAll | Commit | Close

record 'db world =
  store :: 'db
  open_conns :: nat
  db_trace :: "db_event list"

definition record_event :: "db_event \<Rightarrow> 'db world \<Rightarrow> 'db world" where
  "record_event ev w = w\<lparr>db_trace := db_trace w @ [ev]\<rparr>"

text \<open>\<open>sqlite3.connect(DB_PATH)\<close>: a connection with no transaction open.\<close>

definition sqlite_connect ::
  "('db, 'c) engine \<Rightarrow> 'db world \<Rightarrow> (pyexc + 'db option) \<times> 'db world" where
  "sqlite_connect E w =
     (case connect E (store w) of
        Some e \<Rightarrow> (Inl e, record_event Connect w)
      | None \<Rightarrow> (Inr None, (record_event Connect w)\<lparr>open_conns := Suc (open_conns w)\<rparr>))"

text \<open>\<open>cur.execute(sql)\<close>: the cursor, the store as the statement leaves it and the
  state of the connection's transaction.\<close>

definition cur_execute ::
  "('db, 'c) engine \<Rightarrow> 'db option \<Rightarrow> ustring \<Rightarrow> 'db world \<Rightarrow>
     (pyexc + ('c cursor \<times> 'db option)) \<times> 'db world" where
  "cur_execute E conn sql w =
     (case execute E (store w) conn sql of
        Inl e \<Rightarrow> (Inl e, record_event (Execute sql) w)
      | Inr (cur, store', conn') \<Rightarrow>
          (Inr (cur, conn'), (record_event (Execute sql) w)\<lparr>store := store'\<rparr>))"

definition cur_fetchall :: "'c cursor \<Rightarrow> 'db world \<Rightarrow> (pyexc + 'c list list) \<times> 'db world" where
  "cur_fetchall cur w = (fetchall cur, record_event FetchAll w)"

text \<open>\<open>conn.commit()\<close>: the state of the open transaction becomes the store; nothing
  changes when no transaction is open.\<close>

definition committed :: "'db \<Rightarrow> 'db option \<Rightarrow> 'db" where
  "committed s conn = (case conn of None \<Rightarrow> s | Some d \<Rightarrow> d)"

definition conn_commit ::
  "('db, 'c) engine \<Rightarrow> 'db option \<Rightarrow> 'db world \<Rightarrow> (pyexc + unit) \<times> 'db world" where
  "conn_commit E conn w =
     (case commit E (store w) conn of
        Some e \<Rightarrow> (Inl e, record_event Commit w)
      | None \<Rightarrow> (Inr (), (record_event Commit w)\<lparr>store := committed (store w) conn\<rparr>))"

text \<open>\<open>conn.close()\<close>: one open connection less; the state of an open transaction is
  dropped.\<close>

definition conn_close ::
  "('db, 'c) engine \<Rightarrow> 'db option \<Rightarrow> 'db world \<Rightarrow> (pyexc + unit) \<times> 'db world" where
  "conn_close E conn w =
     (case close E (store w) conn of
        Some e \<Rightarrow> (Inl e, record_event Close w)
      | None \<Rightarrow> (Inr (), (record_event Close w)\<lparr>open_conns := open_conns w - 1\<rparr>))"

section \<open>\<open>run_sql\<close>\<close>

text \<open>\<open>pd.DataFrame(rows, columns=cols)\<close>; the rows of a cursor have one cell for each
  column of its description. \<open>df.empty\<close> holds when an axis has length zero.\<close>

record 'c dataframe =
  columns :: "ustring list"
  data :: "'c list list"

definition df_empty :: "'c dataframe \<Rightarrow> bool" where
  "df_empty d = (data d = [] \<or> columns d = [])"

text \<open>The triple \<open>(df, error_message, kind)\<close> that \<open>run_sql\<close> returns.\<close>

record 'c run_result =
  df :: "'c dataframe option"
  error_message :: "ustring option"
  kind :: "ustring option"

text \<open>\<open>sql = query.strip().rstrip(";")\<close>: the statement handed to the engine.\<close>

definition executed_sql :: "ustring \<Rightarrow> ustring" where
  "executed_sql query = py_rstrip_chars (str '';'') (py_strip query)"

text \<open>The body of the \<open>try\<close> block.\<close>

definition run_sql_try ::
  "('db, 'c) engine \<Rightarrow> ustring \<Rightarrow> 'db world \<Rightarrow> (pyexc + 'c run_result) \<times> 'db world" where
  "run_sql_try E query w =
     (case sqlite_connect E w of
        (Inl e, w1) \<Rightarrow> (Inl e, w1)
      | (Inr conn, w1) \<Rightarrow>
          let sql = executed_sql query in
          (case cur_execute E conn sql w1 of
             (Inl e, w2) \<Rightarrow> (Inl e, w2)
           | (Inr (cur, conn'), w2) \<Rightarrow>
               (case description cur of
                  Some cols \<Rightarrow>
                    (case cur_fetchall cur w2 of
                       (Inl e, w3) \<Rightarrow> (Inl e, w3)
                     | (Inr rows, w3) \<Rightarrow>
                         (case conn_close E conn' w3 of
                            (Inl e, w4) \<Rightarrow> (Inl e, w4)
                          | (Inr _, w4) \<Rightarrow>
                              (Inr \<lparr>df = Some \<lparr>columns = cols, data = rows\<rparr>,
                                    error_message = None, kind = Some (str ''select'')\<rparr>, w4)))
                | None \<Rightarrow>
                    (case conn_commit E conn' w2 of
                       (Inl e, w3) \<Rightarrow> (Inl e, w3)
                     | (Inr _, w3) \<Rightarrow>
                         (case conn_close E conn' w3 of
                            (Inl e, w4) \<Rightarrow> (Inl e, w4)
                          | (Inr _, w4) \<Rightarrow>
                              (Inr \<lparr>df = None, error_message = None, kind = Some (str ''other'')\<rparr>,
                               w4))))))"

text \<open>\<open>except Exception as e: return None, str(e), None\<close>.\<close>

definition run_sql :: "('db, 'c) engine \<Rightarrow> ustring \<Rightarrow> 'db world \<Rightarrow> 'c run_result \<times> 'db world" where
  "run_sql E query w =
     (case run_sql_try E query w of
        (Inl e, w') \<Rightarrow> (\<lparr>df = None, error_message = Some (str_of_exc e), kind = None\<rparr>, w')
      | (Inr r, w') \<Rightarrow> (r, w'))"

text \<open>The outcome the triple stands for, after the function's docstring: \<open>kind\<close> is
  \<open>"select"\<close> for rows, \<open>"other"\<close> for a statement without rows, \<open>None\<close> for an
  error with its message.\<close>

datatype 'c execution_outcome = Rows "ustring list" "'c list list" | Effect | Failure ustring

definition outcome_of :: "'c run_result \<Rightarrow> 'c execution_outcome option" where
  "outcome_of r =
     (case kind r of
        None \<Rightarrow> (case error_message r of Some m \<Rightarrow> Some (Failure m) | None \<Rightarrow> None)
      | Some k \<Rightarrow>
          if k = (str ''select'')
          then (case df r of Some d \<Rightarrow> Some (Rows (columns d) (data d)) | None \<Rightarrow> None)
          else if k = (str ''other'') then Some Effect else None)"

section \<open>The chat turn of \<open>main\<close>\<close>

text \<open>
  The part of \<open>main\<close> that runs when the user has typed something. The model keeps
  the history (\<open>st.session_state.messages\<close>), what the turn draws on the page, the
  calls to the three components in the order they are made, the log of the completion
  service and the store.
\<close>

record message =
  role :: ustring
  content :: ustring

datatype 'c widget =
    StMarkdown ustring | StCode ustring | StError ustring | StWarning ustring
  | StInfo ustring | StSuccess ustring | StDataframe "'c dataframe"

datatype component_call =
    CallNlToSql ustring | CallRunSql ustring | CallFixSql ustring ustring ustring

record ('db, 'c) session =
  messages :: "message list"
  page :: "'c widget list"
  calls :: "component_call list"
  llm_log :: "chat_request list"
  db :: "'db world"

definition draw :: "'c widget list \<Rightarrow> ('db, 'c) session \<Rightarrow> ('db, 'c) session" where
  "draw ws st = st\<lparr>page := page st @ ws\<rparr>"

definition append_message :: "ustring \<Rightarrow> ustring \<Rightarrow> ('db, 'c) session \<Rightarrow> ('db, 'c) session" where
  "append_message r c st = st\<lparr>messages := messages st @ [\<lparr>role = r, content = c\<rparr>]\<rparr>"

text \<open>The two marks that open the history messages, U+274C and U+2705.\<close>

definition cross_mark :: ustring where
  "cross_mark = [0x274C]"

definition check_mark :: ustring where
  "check_mark = [0x2705]"

text \<open>A value formatted into an f-string.\<close>

fun fmt :: "ustring option \<Rightarrow> ustring" where
  "fmt None = (str ''None'')"
| "fmt (Some s) = s"

text \<open>The calls of the three components, each entered in the list of calls.\<close>

definition call_nl_to_sql :: "llm \<Rightarrow> ustring \<Rightarrow> ('db, 'c) session \<Rightarrow> gen_result \<times> ('db, 'c) session" where
  "call_nl_to_sql chat text st =
     (case nl_to_sql chat text (llm_log st) of
        (r, log') \<Rightarrow> (r, st\<lparr>calls := calls st @ [CallNlToSql text], llm_log := log'\<rparr>))"

definition call_fix_sql ::
  "llm \<Rightarrow> ustring \<Rightarrow> ustring \<Rightarrow> ustring \<Rightarrow> ('db, 'c) session \<Rightarrow> gen_result \<times> ('db, 'c) session" where
  "call_fix_sql chat original_sql db_error user_request st =
     (case fix_sql chat original_sql db_error user_request (llm_log st) of
        (r, log') \<Rightarrow>
          (r, st\<lparr>calls := calls st @ [CallFixSql original_sql db_error user_request],
                 llm_log := log'\<rparr>))"

definition call_run_sql ::
  "('db, 'c) engine \<Rightarrow> ustring \<Rightarrow> ('db, 'c) session \<Rightarrow> 'c run_result \<times> ('db, 'c) session" where
  "call_run_sql E sql st =
     (case run_sql E sql (db st) of
        (r, w') \<Rightarrow> (r, st\<lparr>calls := calls st @ [CallRunSql sql], db := w'\<rparr>))"

text \<open>The \<open>else\<close> branch of step 3: no database error on the first execution.\<close>

definition report_first :: "'c run_result \<Rightarrow> ('db, 'c) session \<Rightarrow> ('db, 'c) session" where
  "report_first r st =
     (if kind r = Some (str ''select'')
      then (if (case df r of None \<Rightarrow> True | Some d \<Rightarrow> df_empty d)
            then append_message (str ''assistant'')
                   (check_mark @ (str '' Query ran successfully, but no rows matched.''))
                   (draw [StInfo (str ''No rows found for this query.'')] st)
            else append_message (str ''assistant'')
                   (check_mark @ (str '' Query ran successfully and returned rows.''))
                   (draw (case df r of None \<Rightarrow> [] | Some d \<Rightarrow> [StDataframe d]) st))
      else append_message (str ''assistant'')
             (check_mark @ (str '' Command executed successfully on the database.''))
             (draw [StSuccess (check_mark @ (str '' Command executed successfully.''))] st))"

text \<open>The same after the repaired statement ran without a database error.\<close>

definition report_after_fix :: "'c run_result \<Rightarrow> ('db, 'c) session \<Rightarrow> ('db, 'c) session" where
  "report_after_fix r st =
     (if kind r = Some (str ''select'')
      then (if (case df r of None \<Rightarrow> True | Some d \<Rightarrow> df_empty d)
            then append_message (str ''assistant'')
                   (check_mark @ (str '' Query ran (after fix), but no rows matched.''))
                   (draw [StInfo (str ''No rows found for this query (after fix).'')] st)
            else append_message (str ''assistant'')
                   (check_mark @ (str '' Query ran successfully (after fix) and returned rows.''))
                   (draw (case df r of None \<Rightarrow> [] | Some d \<Rightarrow> [StDataframe d]) st))
      else append_message (str ''assistant'')
             (check_mark @ (str '' Command executed successfully on the database (after fix).''))
             (draw [StSuccess (check_mark @ (str '' Command executed successfully (after fix).''))] st))"

text \<open>Step 3 when the first execution gave a database error: one call of \<open>fix_sql\<close>,
  one more execution, and the report.\<close>

definition repair :: "llm \<Rightarrow> ('db, 'c) engine \<Rightarrow> ustring \<Rightarrow> ustring \<Rightarrow> ustring option \<Rightarrow>
    ('db, 'c) session \<Rightarrow> ('db, 'c) session" where
  "repair chat E user_input sql db_err st =
     (let st1 = draw [StWarning ((str ''Database error: '') @ fmt db_err),
                      StMarkdown (str ''Trying to fix the SQL using the model...'')] st
      in case call_fix_sql chat sql (fmt db_err) user_input st1 of
           (GenError fix_err, st2) \<Rightarrow>
             append_message (str ''assistant'')
               (cross_mark @ (str '' DB error: '') @ fmt db_err
                  @ (str ''\<newline>\<newline>And fix also failed: '') @ fix_err)
               (draw [StError fix_err] st2)
         | (Sql fixed_sql, st2) \<Rightarrow>
             (case call_run_sql E fixed_sql
                     (draw [StMarkdown (str ''**Fixed SQL:**''), StCode fixed_sql] st2) of
                (r2, st3) \<Rightarrow>
                  if truthy (error_message r2)
                  then append_message (str ''assistant'')
                         (cross_mark @ (str '' DB error after fix: '') @ fmt (error_message r2))
                         (draw [StError ((str ''Database error even after fix: '')
                                          @ fmt (error_message r2))] st3)
                  else report_after_fix r2 st3))"

text \<open>The assistant's block: steps 1 to 3.\<close>

definition assistant_turn ::
  "llm \<Rightarrow> ('db, 'c) engine \<Rightarrow> ustring \<Rightarrow> ('db, 'c) session \<Rightarrow> ('db, 'c) session" where
  "assistant_turn chat E user_input st =
     (case call_nl_to_sql chat user_input st of
        (GenError err, st1) \<Rightarrow>
          append_message (str ''assistant'') (cross_mark @ (str '' '') @ err) (draw [StError err] st1)
      | (Sql sql, st1) \<Rightarrow>
          (case call_run_sql E sql
                  (draw [StMarkdown (str ''**Generated SQL:**''), StCode sql] st1) of
             (r, st2) \<Rightarrow>
               if truthy (error_message r)
               then repair chat E user_input sql (error_message r) st2
               else report_first r st2))"

text \<open>\<open>if user_input:\<close> with the user's message stored and shown first.\<close>

definition main_turn ::
  "llm \<Rightarrow> ('db, 'c) engine \<Rightarrow> ustring \<Rightarrow> ('db, 'c) session \<Rightarrow> ('db, 'c) session" where
  "main_turn chat E user_input st =
     (if user_input = [] then st
      else assistant_turn chat E user_input
             (draw [StMarkdown user_input] (append_message (str ''user'') user_input st)))"

section \<open>Notions used in the statements\<close>

text \<open>The first whitespace-delimited token of a text, lower-cased; empty when the text
  has no token.\<close>

definition first_token :: "ustring \<Rightarrow> ustring" where
  "first_token s = (case py_words s of [] \<Rightarrow> [] | w # _ \<Rightarrow> py_lower w)"


text \<open>Fixtures for the concrete runs: a completion service that answers every request
  with the same text, and a small engine. Its store holds the statements applied to it.
  A \<open>select\<close> gives one row for each statement it can see. A statement that starts with
  \<open>insert\<close>, \<open>update\<close>, \<open>delete\<close> or \<open>replace\<close> opens a transaction and is
  appended there; one that starts with \<open>with\<close> or \<open>create\<close> is appended to the store
  at once when no transaction is open. A modifying statement has one result row when it
  has a \<open>returning\<close> clause and no result set otherwise. Anything else is a syntax
  error.\<close>

definition reply_with :: "ustring \<Rightarrow> llm" where
  "reply_with s = (\<lambda>req. Inr s)"

definition fresh_world :: "ustring list world" where
  "fresh_world = \<lparr>store = [], open_conns = 0, db_trace = []\<rparr>"

definition toy_cursor :: "ustring list \<Rightarrow> ustring \<Rightarrow> nat cursor" where
  "toy_cursor view sql =
     (if py_in (str ''returning'') (py_lower sql)
      then \<lparr>description = Some [str ''n''], fetchall = Inr [[length view]]\<rparr>
      else \<lparr>description = None, fetchall = Inr []\<rparr>)"

definition toy_execute ::
  "ustring list \<Rightarrow> ustring list option \<Rightarrow> ustring \<Rightarrow>
     pyexc + (nat cursor \<times> ustring list \<times> ustring list option)" where
  "toy_execute s p sql =
     (let view = (case p of None \<Rightarrow> s | Some d \<Rightarrow> d) in
      if first_token sql = str ''select''
      then Inr (\<lparr>description = Some [str ''n''],
                 fetchall = Inr (map (\<lambda>t. [length t]) view)\<rparr>, s, p)
      else if first_token sql \<in> set [str ''insert'', str ''update'', str ''delete'', str ''replace'']
      then Inr (toy_cursor view sql, s, Some (view @ [sql]))
      else if first_token sql \<in> set [str ''with'', str ''create'']
      then (case p of
              None \<Rightarrow> Inr (toy_cursor view sql, s @ [sql], None)
            | Some d \<Rightarrow> Inr (toy_cursor view sql, s, Some (d @ [sql])))
      else Inl (PyException (str ''near '' @ first_token sql @ str '': syntax error'')))"

definition toy_engine :: "(ustring list, nat) engine" where
  "toy_engine =
     \<lparr>connect = (\<lambda>s. None), execute = toy_execute,
      commit = (\<lambda>s p. None), close = (\<lambda>s p. None)\<rparr>"

text \<open>An engine at its heap limit: a statement that names the column \<open>nosuch\<close> is
  refused with the diagnostic for it, and any other statement raises an exception whose
  text is empty, as that of a \<open>MemoryError\<close> is.\<close>

definition exhausted_execute ::
  "ustring list \<Rightarrow> ustring list option \<Rightarrow> ustring \<Rightarrow>
     pyexc + (nat cursor \<times> ustring list \<times> ustring list option)" where
  "exhausted_execute s p sql =
     (if py_in (str ''nosuch'') sql then Inl (PyException (str ''no such column: nosuch''))
      else Inl (PyException []))"

definition exhausted_engine :: "(ustring list, nat) engine" where
  "exhausted_engine =
     \<lparr>connect = (\<lambda>s. None), execute = exhausted_execute,
      commit = (\<lambda>s p. None), close = (\<lambda>s p. None)\<rparr>"

definition fresh_session :: "(ustring list, nat) session" where
  "fresh_session = \<lparr>messages = [], page = [], calls = [], llm_log = [], db = fresh_world\<rparr>"

text \<open>The kinds of component call, and the outcome texts that the turn records in the
  history when a statement ran without a database error.\<close>

fun is_generation_call :: "component_call \<Rightarrow> bool" where
  "is_generation_call (CallNlToSql _) = True"
| "is_generation_call _ = False"

fun is_execution_call :: "component_call \<Rightarrow> bool" where
  "is_execution_call (CallRunSql _) = True"
| "is_execution_call _ = False"

fun is_repair_call :: "component_call \<Rightarrow> bool" where
  "is_repair_call (CallFixSql _ _ _) = True"
| "is_repair_call _ = False"

definition first_run_texts :: "ustring list" where
  "first_run_texts =
     [check_mark @ (str '' Query ran successfully, but no rows matched.''),
      check_mark @ (str '' Query ran successfully and returned rows.''),
      check_mark @ (str '' Command executed successfully on the database.'')]"

definition after_fix_texts :: "ustring list" where
  "after_fix_texts =
     [check_mark @ (str '' Query ran (after fix), but no rows matched.''),
      check_mark @ (str '' Query ran successfully (after fix) and returned rows.''),
      check_mark @ (str '' Command executed successfully on the database (after fix).'')]"

text \<open>A completion service that answers a request for a statement with one text and a
  request for a repair with another.\<close>

definition reply_then :: "ustring \<Rightarrow> ustring \<Rightarrow> llm" where
  "reply_then a b =
     (\<lambda>req. if system_content req = (str ''You fix invalid SQL statements for a SQLite database.'')
            then Inr b else Inr a)"

section \<open>Facts about the string functions\<close>

lemma rstrip_keep_head:
  "\<not> P x \<Longrightarrow> rev (dropWhile P (rev (x # xs))) = x # rev (dropWhile P (rev xs))"
  by (simp add: dropWhile_append)

lemma py_strip_Nil_iff: "py_strip s = [] \<longleftrightarrow> (\<forall>c\<in>set s. is_space c)"
proof (cases "dropWhile is_space s")
  case Nil
  then have "\<forall>c\<in>set s. is_space c" by (simp only: dropWhile_eq_Nil_conv)
  moreover have "py_strip s = []" unfolding py_strip_def Nil by simp
  ultimately show ?thesis by simp
next
  case (Cons x xs)
  then have nx: "\<not> is_space x" using hd_dropWhile[of is_space s] by simp
  from Cons have "\<not> (\<forall>c\<in>set s. is_space c)"
    by (metis dropWhile_eq_Nil_conv list.distinct(1))
  moreover have "py_strip s \<noteq> []"
    using rstrip_keep_head[of is_space x xs] nx Cons by (simp add: py_strip_def)
  ultimately show ?thesis by simp
qed

lemma py_strip_head: "py_strip s \<noteq> [] \<Longrightarrow> \<not> is_space (hd (py_strip s))"
proof (cases "dropWhile is_space s")
  case Nil
  assume "py_strip s \<noteq> []"
  moreover have "py_strip s = []" unfolding py_strip_def Nil by simp
  ultimately show ?thesis by simp
next
  case (Cons x xs)
  then have nx: "\<not> is_space x" using hd_dropWhile[of is_space s] by simp
  have "py_strip s = x # rev (dropWhile is_space (rev xs))"
    using rstrip_keep_head[of is_space x xs] nx Cons by (simp add: py_strip_def)
  with nx show ?thesis by simp
qed




lemma py_words_acc_nonempty:
  "acc \<noteq> [] \<or> (\<exists>c\<in>set s. \<not> is_space c) \<Longrightarrow> py_words_acc acc s \<noteq> []"
  by (induction s arbitrary: acc) auto

lemma py_startswith_iff: "py_startswith s p \<longleftrightarrow> (\<exists>b. s = p @ b)"
proof
  assume "py_startswith s p"
  then have "s = p @ drop (length p) s"
    unfolding py_startswith_def by (metis append_take_drop_id)
  then show "\<exists>b. s = p @ b" ..
next
  assume "\<exists>b. s = p @ b"
  then show "py_startswith s p" by (auto simp: py_startswith_def)
qed

lemma py_in_iff: "py_in p s \<longleftrightarrow> (\<exists>a b. s = a @ p @ b)"
proof (induction s)
  case Nil
  show ?case by simp
next
  case (Cons c cs)
  show ?case
  proof
    assume "py_in p (c # cs)"
    then consider "py_startswith (c # cs) p" | "py_in p cs" by auto
    then show "\<exists>a b. c # cs = a @ p @ b"
    proof cases
      case 1
      then obtain b where "c # cs = p @ b" using py_startswith_iff by blast
      then have "c # cs = [] @ p @ b" by simp
      then show ?thesis by blast
    next
      case 2
      then obtain a b where "cs = a @ p @ b" using Cons.IH by blast
      then have "c # cs = (c # a) @ p @ b" by simp
      then show ?thesis by blast
    qed
  next
    assume "\<exists>a b. c # cs = a @ p @ b"
    then obtain a b where ab: "c # cs = a @ p @ b" by blast
    show "py_in p (c # cs)"
    proof (cases a)
      case Nil
      with ab have "py_startswith (c # cs) p" using py_startswith_iff by auto
      then show ?thesis by simp
    next
      case (Cons x a')
      with ab have "cs = a' @ p @ b" by simp
      then have "py_in p cs" using Cons.IH by blast
      then show ?thesis by simp
    qed
  qed
qed



lemma py_strip_infix:
  "\<exists>a b. s = a @ py_strip s @ b \<and> (\<forall>c\<in>set a. is_space c) \<and> (\<forall>c\<in>set b. is_space c)"
proof -
  let ?d = "dropWhile is_space s"
  have 1: "s = takeWhile is_space s @ ?d" by simp
  have "rev ?d = takeWhile is_space (rev ?d) @ dropWhile is_space (rev ?d)" by simp
  then have "?d = rev (dropWhile is_space (rev ?d)) @ rev (takeWhile is_space (rev ?d))"
    by (metis rev_append rev_rev_ident)
  then have 2: "?d = py_strip s @ rev (takeWhile is_space (rev ?d))"
    by (simp add: py_strip_def)
  have "s = takeWhile is_space s @ py_strip s @ rev (takeWhile is_space (rev ?d))"
    using 1 2 by metis
  moreover have "\<forall>c\<in>set (takeWhile is_space s). is_space c"
    by (meson set_takeWhileD)
  moreover have "\<forall>c\<in>set (rev (takeWhile is_space (rev ?d))). is_space c"
    by (metis set_rev set_takeWhileD)
  ultimately show ?thesis by blast
qed

lemma py_in_strip: "py_in q (py_strip s) \<Longrightarrow> py_in q s"
proof -
  assume "py_in q (py_strip s)"
  then obtain a b where e: "py_strip s = a @ q @ b" using py_in_iff by blast
  obtain a' b' where "s = a' @ py_strip s @ b'" using py_strip_infix by blast
  then have "s = (a' @ a) @ q @ (b @ b')" using e by simp
  then show "py_in q s" using py_in_iff by blast
qed

lemmas py_eval =
  str_def is_space_def py_strip_def py_rstrip_chars_def py_startswith_def py_endswith_def
  py_lower_def lower_char_def py_words_def py_split_def






section \<open>The generator\<close>

lemma cleaned_head:
  assumes "cleaned reply \<noteq> []"
  shows "\<exists>c\<in>set (cleaned reply). \<not> is_space c"
proof -
  let ?t = "fence_cleaned (py_strip reply)"
  have t: "?t = py_strip (strip_fences (py_strip reply))" by (simp add: fence_cleaned_def)
  have cl: "cleaned reply = (if py_endswith ?t (str '';'') then butlast ?t else ?t)"
    by (simp add: cleaned_def drop_terminator_def)
  have ne: "?t \<noteq> []" using assms cl by (auto split: if_splits)
  then have h: "\<not> is_space (hd ?t)" using py_strip_head t by metis
  have "hd (cleaned reply) = hd ?t"
    using assms cl by (cases ?t) (auto split: if_splits)
  then have "\<not> is_space (hd (cleaned reply))" using h by simp
  then show ?thesis using assms hd_in_set by blast
qed

lemma first_word_cleaned: "first_word (cleaned reply) = Inr (first_token (cleaned reply))"
proof (cases "cleaned reply = []")
  case True
  then show ?thesis by (simp add: first_word_def first_token_def py_words_def)
next
  case False
  then have "py_words (cleaned reply) \<noteq> []"
    using cleaned_head py_words_acc_nonempty[of "[]" "cleaned reply"]
    by (simp add: py_words_def)
  then show ?thesis using False
    by (auto simp: first_word_def first_token_def split: list.splits)
qed

lemma check_completion_eq:
  "check_completion msg reply =
     Inr (if first_token (cleaned reply) \<in> set statement_keywords
          then Sql (cleaned reply) else GenError (msg @ cleaned reply))"
  by (simp add: check_completion_def first_word_cleaned Let_def)

text \<open>
  Claim C9. A request that is empty or made of whitespace only (any of the code points
  that \<open>str.strip\<close> removes) is answered by \<open>nl_to_sql\<close> with the error
  \<open>Please type a question or command.\<close>, whatever the completion service is, and the
  log of requests sent to the service is unchanged: the service is not called.
\<close>

theorem nl_to_sql_blank_request:
  "\<forall>c\<in>set text. is_space c \<Longrightarrow>
     nl_to_sql chat text log = (GenError (str ''Please type a question or command.''), log)"
  using py_strip_Nil_iff[of "text"] by (simp add: nl_to_sql_def)

theorem nl_to_sql_blank_request_witness:
  "nl_to_sql (reply_with (str ''select 1'')) ([0xA0, 0x3000] @ str '' \<newline> '') [] =
     (GenError (str ''Please type a question or command.''), [])"
  by (rule nl_to_sql_blank_request) (simp add: str_def is_space_def)

text \<open>
  Claim C3, amended. When the request is not blank and the service returns a completion,
  \<open>nl_to_sql\<close> returns the cleaned statement exactly when its first
  whitespace-delimited token, lower-cased, is one of the eight keywords; otherwise (an
  empty cleaned text has the empty token) it returns the error whose message ends with
  the cleaned text, which is not the raw completion. The body of the \<open>try\<close> block
  returns a value: indexing the list of tokens never raises.
\<close>

theorem nl_to_sql_validation:
  assumes "py_strip text \<noteq> []" and "chat (nl_request text) = Inr reply"
  shows "fst (nl_to_sql chat text log) =
           (if first_token (cleaned reply) \<in> set statement_keywords
            then Sql (cleaned reply)
            else GenError (str ''Model did not return a valid SQL statement. It returned:\<newline>''
                            @ cleaned reply))
         \<and> (\<exists>r. nl_to_sql_try chat text = Inr r)"
proof -
  have "text \<noteq> []" using assms(1) by (auto simp: py_strip_def)
  then show ?thesis using assms
    by (simp add: nl_to_sql_def nl_to_sql_try_def check_completion_eq)
qed

text \<open>The theorem at a completion whose keyword is followed by a no-break space.\<close>

theorem nl_to_sql_validation_witness:
  "fst (nl_to_sql (reply_with (str '' Select'' @ [0xA0] @ str ''* from students; ''))
          (str ''show all'') []) =
     Sql (str ''Select'' @ [0xA0] @ str ''* from students'')"
proof -
  let ?reply = "str '' Select'' @ [0xA0] @ str ''* from students; ''"
  have h1: "py_strip (str ''show all'') \<noteq> []" by (simp add: py_eval)
  have h2: "reply_with ?reply (nl_request (str ''show all'')) = Inr ?reply"
    by (simp add: reply_with_def)
  have c: "cleaned ?reply = str ''Select'' @ [0xA0] @ str ''* from students''"
    by (simp add: cleaned_def drop_terminator_def fence_cleaned_def strip_fences_def py_eval)
  have f: "first_token (str ''Select'' @ [0xA0] @ str ''* from students'') = str ''select''"
    by (simp add: first_token_def py_eval)
  have k: "str ''select'' \<in> set statement_keywords"
    by (simp add: statement_keywords_def)
  show ?thesis
    using nl_to_sql_validation[of "str ''show all''" "reply_with ?reply" ?reply "[]"] h1 h2 c f k
    by simp
qed

text \<open>
  For the completion \<open>hello;\<close> the error message ends with \<open>hello\<close>: the raw
  completion does not occur in it.
\<close>

theorem nl_to_sql_error_text_counterexample:
  "fst (nl_to_sql (reply_with (str ''hello;'')) (str ''hi'') []) =
     GenError (str ''Model did not return a valid SQL statement. It returned:\<newline>hello'')
   \<and> \<not> py_in (str ''hello;'')
         (str ''Model did not return a valid SQL statement. It returned:\<newline>hello'')"
proof -
  have c: "cleaned (str ''hello;'') = str ''hello''"
    by (simp add: cleaned_def drop_terminator_def fence_cleaned_def strip_fences_def py_eval)
  have f: "first_token (str ''hello'') = str ''hello''"
    by (simp add: first_token_def py_eval)
  have k: "str ''hello'' \<notin> set statement_keywords"
    by (simp add: statement_keywords_def str_def)
  have s: "py_strip (str ''hi'') \<noteq> []" "str ''hi'' \<noteq> []" by (simp_all add: py_eval)
  have 1: "fst (nl_to_sql (reply_with (str ''hello;'')) (str ''hi'') []) =
     GenError (str ''Model did not return a valid SQL statement. It returned:\<newline>''
                 @ str ''hello'')"
    using c f k s
    by (simp add: nl_to_sql_def nl_to_sql_try_def check_completion_eq reply_with_def)
  have 2: "\<not> py_in (str ''hello;'')
         (str ''Model did not return a valid SQL statement. It returned:\<newline>hello'')"
    by (simp add: str_def py_startswith_def)
  show ?thesis using 1 2 by (simp add: str_def)
qed









section \<open>The executor\<close>

lemma py_rstrip_chars_decomp:
  "s = py_rstrip_chars [x] s @ replicate (length (takeWhile (\<lambda>c. c = x) (rev s))) x"
proof -
  let ?P = "\<lambda>c. c \<in> set [x]"
  have "rev s = takeWhile ?P (rev s) @ dropWhile ?P (rev s)" by simp
  then have "s = rev (dropWhile ?P (rev s)) @ rev (takeWhile ?P (rev s))"
    by (metis rev_append rev_rev_ident)
  moreover have "\<forall>y\<in>set (rev (takeWhile ?P (rev s))). y = x"
    using set_takeWhileD by fastforce
  then have "replicate (length (rev (takeWhile ?P (rev s)))) x = rev (takeWhile ?P (rev s))"
    by (rule replicate_length_same)
  ultimately show ?thesis by (simp add: py_rstrip_chars_def)
qed

lemma py_rstrip_chars_last:
  "py_rstrip_chars [x] s \<noteq> [] \<Longrightarrow> last (py_rstrip_chars [x] s) \<noteq> x"
proof -
  let ?d = "dropWhile (\<lambda>c. c \<in> set [x]) (rev s)"
  assume "py_rstrip_chars [x] s \<noteq> []"
  then have ne: "?d \<noteq> []" by (simp add: py_rstrip_chars_def)
  then have "\<not> (hd ?d \<in> set [x])" by (rule hd_dropWhile)
  moreover have "last (py_rstrip_chars [x] s) = hd ?d"
    using ne by (simp add: py_rstrip_chars_def last_rev)
  ultimately show ?thesis by simp
qed

lemma py_endswith_single: "py_endswith s [x] \<longleftrightarrow> s \<noteq> [] \<and> last s = x"
proof (cases "s = []")
  case True
  then show ?thesis by (simp add: py_endswith_def)
next
  case False
  then have "drop (length s - 1) s = [last s]"
    by (metis append_butlast_last_id append_eq_conv_conj length_butlast)
  then show ?thesis using False
    by (cases s) (auto simp: py_endswith_def)
qed

lemma str_terminator: "str '';'' = [59]"
  by (simp add: str_def)

lemma executed_sql_no_terminator: "\<not> py_endswith (executed_sql query) (str '';'')"
  using py_rstrip_chars_last[of "59" "py_strip query"]
  by (auto simp: py_endswith_single executed_sql_def str_terminator)

lemmas run_sql_steps =
  run_sql_try_def sqlite_connect_def cur_execute_def cur_fetchall_def
  conn_commit_def conn_close_def record_event_def

lemma run_sql_try_world:
  "snd (run_sql E query w) = snd (run_sql_try E query w)"
  by (simp add: run_sql_def split: prod.splits sum.splits)

lemma run_sql_try_trace_prefix:
  assumes "connect E (store w) = None"
  shows "\<exists>evs. db_trace (snd (run_sql_try E query w)) =
           db_trace w @ Connect # Execute (executed_sql query) # evs"
  using assms
  by (auto simp: run_sql_steps Let_def split: sum.splits option.splits prod.splits)

text \<open>
  Claim C7, amended. \<open>run_sql\<close> trims the surrounding whitespace of its input and
  then removes every trailing \<open>;\<close>, not at most one: once the connection is open, the
  statement handed to the engine is the trimmed input without its whole run of trailing
  terminators, and it never ends in \<open>;\<close>.
\<close>

theorem run_sql_strips_every_terminator:
  assumes "connect E (store w) = None"
  shows "(\<exists>evs. db_trace (snd (run_sql E query w)) =
            db_trace w @ Connect # Execute (executed_sql query) # evs)
         \<and> (\<exists>n. py_strip query = executed_sql query @ replicate n 59)
         \<and> \<not> py_endswith (executed_sql query) (str '';'')"
proof -
  have 1: "\<exists>evs. db_trace (snd (run_sql E query w)) =
            db_trace w @ Connect # Execute (executed_sql query) # evs"
    using run_sql_try_trace_prefix[OF assms] by (simp add: run_sql_try_world)
  have 2: "\<exists>n. py_strip query = executed_sql query @ replicate n 59"
    using py_rstrip_chars_decomp[of "py_strip query" "59"]
    unfolding executed_sql_def str_terminator by blast
  show ?thesis using 1 2 executed_sql_no_terminator by blast
qed

text \<open>The theorem at a statement between no-break spaces.\<close>

theorem run_sql_strips_every_terminator_witness:
  "(\<exists>evs. db_trace (snd (run_sql toy_engine ([0xA0] @ str ''SELECT 1;;'' @ [0xA0]) fresh_world)) =
            db_trace fresh_world
              @ Connect # Execute (executed_sql ([0xA0] @ str ''SELECT 1;;'' @ [0xA0])) # evs)
   \<and> (\<exists>n. py_strip ([0xA0] @ str ''SELECT 1;;'' @ [0xA0]) =
            executed_sql ([0xA0] @ str ''SELECT 1;;'' @ [0xA0]) @ replicate n 59)
   \<and> \<not> py_endswith (executed_sql ([0xA0] @ str ''SELECT 1;;'' @ [0xA0])) (str '';'')"
  by (rule run_sql_strips_every_terminator) (simp add: toy_engine_def fresh_world_def)

text \<open>
  For the input \<open>SELECT 1;;\<close> with blanks around it the engine is handed
  \<open>SELECT 1\<close>: both terminators are removed, and \<open>SELECT 1;\<close> is never executed.
\<close>

theorem run_sql_terminators_counterexample:
  "db_trace (snd (run_sql toy_engine (str '' SELECT 1;; '') fresh_world)) =
     [Connect, Execute (str ''SELECT 1''), FetchAll, Close]
   \<and> Execute (str ''SELECT 1;'')
       \<notin> set (db_trace (snd (run_sql toy_engine (str '' SELECT 1;; '') fresh_world)))"
proof -
  have e: "executed_sql (str '' SELECT 1;; '') = str ''SELECT 1''"
    by (simp add: executed_sql_def py_eval)
  have f: "first_token (str ''SELECT 1'') = str ''select''"
    by (simp add: first_token_def py_eval)
  have "db_trace (snd (run_sql toy_engine (str '' SELECT 1;; '') fresh_world)) =
          [Connect, Execute (str ''SELECT 1''), FetchAll, Close]"
    using e f
    by (simp add: run_sql_def run_sql_steps toy_engine_def toy_execute_def fresh_world_def)
  then show ?thesis by (simp add: str_def)
qed

lemma run_sql_raised:
  "run_sql_try E query w = (Inl e, w') \<Longrightarrow>
     run_sql E query w = (\<lparr>df = None, error_message = Some (str_of_exc e), kind = None\<rparr>, w')"
  by (simp add: run_sql_def)

lemma run_sql_returned:
  "run_sql_try E query w = (Inr r, w') \<Longrightarrow> run_sql E query w = (r, w')"
  by (simp add: run_sql_def)

lemma run_sql_rows:
  assumes "connect E (store w) = None"
    and "execute E (store w) None (executed_sql query) = Inr (cur, s', p')"
    and "description cur = Some cols" and "fetchall cur = Inr rows" and "close E s' p' = None"
  shows "fst (run_sql E query w) =
           \<lparr>df = Some \<lparr>columns = cols, data = rows\<rparr>, error_message = None,
            kind = Some (str ''select'')\<rparr>"
    and "db_trace (snd (run_sql E query w)) =
           db_trace w @ [Connect, Execute (executed_sql query), FetchAll, Close]"
    and "store (snd (run_sql E query w)) = s'"
    and "open_conns (snd (run_sql E query w)) = open_conns w"
  using assms by (simp_all add: run_sql_def run_sql_steps)

lemma run_sql_effect:
  assumes "connect E (store w) = None"
    and "execute E (store w) None (executed_sql query) = Inr (cur, s', p')"
    and "description cur = None" and "commit E s' p' = None"
    and "close E (committed s' p') p' = None"
  shows "fst (run_sql E query w) =
           \<lparr>df = None, error_message = None, kind = Some (str ''other'')\<rparr>"
    and "db_trace (snd (run_sql E query w)) =
           db_trace w @ [Connect, Execute (executed_sql query), Commit, Close]"
    and "store (snd (run_sql E query w)) = committed s' p'"
    and "open_conns (snd (run_sql E query w)) = open_conns w"
  using assms by (simp_all add: run_sql_def run_sql_steps)

lemma run_sql_try_select_only:
  assumes "run_sql_try E query w = (Inr r, w')" and "kind r = Some (str ''select'')"
  shows "\<exists>cur s' p' cols rows. connect E (store w) = None
           \<and> execute E (store w) None (executed_sql query) = Inr (cur, s', p')
           \<and> description cur = Some cols \<and> fetchall cur = Inr rows \<and> close E s' p' = None
           \<and> df r = Some \<lparr>columns = cols, data = rows\<rparr>"
  using assms
  by (auto simp: run_sql_steps Let_def str_def split: option.splits sum.splits prod.splits)

lemma run_sql_try_other_only:
  assumes "run_sql_try E query w = (Inr r, w')" and "kind r = Some (str ''other'')"
  shows "\<exists>cur s' p'. connect E (store w) = None
           \<and> execute E (store w) None (executed_sql query) = Inr (cur, s', p')
           \<and> description cur = None \<and> commit E s' p' = None
           \<and> close E (committed s' p') p' = None"
  using assms
  by (auto simp: run_sql_steps Let_def str_def split: option.splits sum.splits prod.splits)

lemma run_sql_try_kind:
  assumes "run_sql_try E query w = (Inr r, w')"
  shows "(kind r = Some (str ''select'') \<and> df r \<noteq> None) \<or> kind r = Some (str ''other'')"
  using assms
  by (auto simp: run_sql_steps Let_def split: option.splits sum.splits prod.splits)

lemma outcome_rows:
  "outcome_of \<lparr>df = Some \<lparr>columns = cols, data = rows\<rparr>, error_message = None,
               kind = Some (str ''select'')\<rparr> = Some (Rows cols rows)"
  by (simp add: outcome_of_def)

lemma outcome_effect:
  "outcome_of \<lparr>df = None, error_message = None, kind = Some (str ''other'')\<rparr> = Some Effect"
  by (simp add: outcome_of_def str_def)

lemma outcome_failure:
  "outcome_of \<lparr>df = None, error_message = Some m, kind = None\<rparr> = Some (Failure m)"
  by (simp add: outcome_of_def)

lemma outcome_rows_only:
  "outcome_of r = Some (Rows cols rows) \<Longrightarrow>
     kind r = Some (str ''select'')
     \<and> (\<exists>d. df r = Some d \<and> columns d = cols \<and> data d = rows)"
  by (auto simp: outcome_of_def split: option.splits if_splits)

lemma outcome_effect_only: "outcome_of r = Some Effect \<Longrightarrow> kind r = Some (str ''other'')"
  by (auto simp: outcome_of_def split: option.splits if_splits)

lemma run_sql_select_only:
  assumes "kind (fst (run_sql E query w)) = Some (str ''select'')"
  shows "\<exists>cur s' p' cols rows. connect E (store w) = None
           \<and> execute E (store w) None (executed_sql query) = Inr (cur, s', p')
           \<and> description cur = Some cols \<and> fetchall cur = Inr rows \<and> close E s' p' = None
           \<and> df (fst (run_sql E query w)) = Some \<lparr>columns = cols, data = rows\<rparr>"
proof (cases "run_sql_try E query w")
  case (Pair x w')
  show ?thesis
  proof (cases x)
    case (Inl e)
    then show ?thesis using assms Pair by (simp add: run_sql_raised)
  next
    case (Inr r)
    then have "run_sql E query w = (r, w')" using Pair by (simp add: run_sql_returned)
    then show ?thesis using assms run_sql_try_select_only[of E query w r w'] Pair Inr by simp
  qed
qed

lemma run_sql_other_only:
  assumes "kind (fst (run_sql E query w)) = Some (str ''other'')"
  shows "\<exists>cur s' p'. connect E (store w) = None
           \<and> execute E (store w) None (executed_sql query) = Inr (cur, s', p')
           \<and> description cur = None \<and> commit E s' p' = None
           \<and> close E (committed s' p') p' = None"
proof (cases "run_sql_try E query w")
  case (Pair x w')
  show ?thesis
  proof (cases x)
    case (Inl e)
    then show ?thesis using assms Pair by (simp add: run_sql_raised)
  next
    case (Inr r)
    then have "run_sql E query w = (r, w')" using Pair by (simp add: run_sql_returned)
    then show ?thesis using assms run_sql_try_other_only[of E query w r w'] Pair Inr by simp
  qed
qed

lemma run_sql_outcome_total: "\<exists>out. outcome_of (fst (run_sql E query w)) = Some out"
proof (cases "run_sql_try E query w")
  case (Pair x w')
  show ?thesis
  proof (cases x)
    case (Inl e)
    then show ?thesis using Pair by (simp add: run_sql_raised outcome_failure)
  next
    case (Inr r)
    then have "run_sql E query w = (r, w')" using Pair by (simp add: run_sql_returned)
    moreover have "(kind r = Some (str ''select'') \<and> df r \<noteq> None) \<or> kind r = Some (str ''other'')"
      using run_sql_try_kind Pair Inr by blast
    ultimately show ?thesis by (auto simp: outcome_of_def str_def)
  qed
qed

lemma str_eq_iff: "str a = str b \<longleftrightarrow> a = b"
proof -
  have "inj (of_char :: char \<Rightarrow> nat)" by (rule injI) simp
  then show ?thesis unfolding str_def by (simp add: inj_map_eq_map)
qed

lemma str_append: "str (a @ b) = str a @ str b"
  by (simp add: str_def)

lemma toy_fields:
  "connect toy_engine s = None" "execute toy_engine = toy_execute"
  "commit toy_engine s p = None" "close toy_engine s p = None"
  by (simp_all add: toy_engine_def)

lemma toy_tokens:
  "first_token (str ''select n from t'') = str ''select''"
  "first_token (str ''delete from t'') = str ''delete''"
  "first_token (str ''insert into t values (1) returning n'') = str ''insert''"
  "first_token (str ''with x as (select 1) insert into t select * from x returning n'') = str ''with''"
  "first_token (str ''selec 1'') = str ''selec''"
  "first_token (str ''drop table t'') = str ''drop''"
  by (simp_all add: first_token_def py_eval)

lemma toy_returning_clause:
  "\<not> py_in (str ''returning'') (py_lower (str ''delete from t''))"
  "py_in (str ''returning'') (py_lower (str ''insert into t values (1) returning n''))"
  "py_in (str ''returning'')
     (py_lower (str ''with x as (select 1) insert into t select * from x returning n''))"
  by (simp_all add: str_def py_lower_def lower_char_def py_startswith_def)

lemma toy_select: "toy_execute s None (str ''select n from t'') =
    Inr (\<lparr>description = Some [str ''n''], fetchall = Inr (map (\<lambda>t. [length t]) s)\<rparr>, s, None)"
  by (simp add: toy_execute_def toy_tokens str_eq_iff)

lemma toy_delete: "toy_execute s None (str ''delete from t'') =
    Inr (\<lparr>description = None, fetchall = Inr []\<rparr>, s, Some (s @ [str ''delete from t'']))"
  by (simp add: toy_execute_def toy_cursor_def toy_tokens toy_returning_clause str_eq_iff)

lemma toy_returning: "toy_execute s None (str ''insert into t values (1) returning n'') =
    Inr (\<lparr>description = Some [str ''n''], fetchall = Inr [[length s]]\<rparr>, s,
         Some (s @ [str ''insert into t values (1) returning n'']))"
  by (simp add: toy_execute_def toy_cursor_def toy_tokens toy_returning_clause str_eq_iff)

lemma toy_with:
  "toy_execute s None (str ''with x as (select 1) insert into t select * from x returning n'') =
    Inr (\<lparr>description = Some [str ''n''], fetchall = Inr [[length s]]\<rparr>,
         s @ [str ''with x as (select 1) insert into t select * from x returning n''], None)"
  by (simp add: toy_execute_def toy_cursor_def toy_tokens toy_returning_clause str_eq_iff)

lemma toy_error:
  "toy_execute s None (str ''selec 1'') = Inl (PyException (str ''near selec: syntax error''))"
  by (simp add: toy_execute_def toy_tokens str_eq_iff str_append[symmetric])

lemma executed_plain:
  "executed_sql (str ''select n from t;'') = str ''select n from t''"
  "executed_sql (str ''select n from t'') = str ''select n from t''"
  "executed_sql (str ''delete from t'') = str ''delete from t''"
  "executed_sql (str ''insert into t values (1) returning n'') =
     str ''insert into t values (1) returning n''"
  "executed_sql (str ''with x as (select 1) insert into t select * from x returning n'') =
     str ''with x as (select 1) insert into t select * from x returning n''"
  "executed_sql (str ''selec 1'') = str ''selec 1''"
  "executed_sql (str ''drop table t'') = str ''drop table t''"
  by (simp_all add: executed_sql_def py_eval)

text \<open>
  Claim C2. When no call to the engine raises, \<open>run_sql\<close> returns the row-set outcome
  exactly when the cursor of the executed statement has a description: with a
  description it returns the columns and all the fetched rows (for zero rows too, an
  outcome that is no failure); without one it commits, so that the state of the open
  transaction becomes the store, and returns the effect outcome. Conversely a row-set
  outcome is only returned for a statement with a description and an effect outcome only
  for one without.
\<close>

theorem run_sql_classifies:
  "(connect E (store w) = None
      \<and> execute E (store w) None (executed_sql query) = Inr (cur, s', p')
      \<and> description cur = Some cols \<and> fetchall cur = Inr rows \<and> close E s' p' = None
    \<longrightarrow> outcome_of (fst (run_sql E query w)) = Some (Rows cols rows)
        \<and> outcome_of (fst (run_sql E query w)) \<noteq> Some (Failure m))
   \<and> (connect E (store w) = None
      \<and> execute E (store w) None (executed_sql query) = Inr (cur, s', p')
      \<and> description cur = None \<and> commit E s' p' = None
      \<and> close E (committed s' p') p' = None
    \<longrightarrow> outcome_of (fst (run_sql E query w)) = Some Effect
        \<and> store (snd (run_sql E query w)) = committed s' p'
        \<and> db_trace (snd (run_sql E query w)) =
            db_trace w @ [Connect, Execute (executed_sql query), Commit, Close])
   \<and> (outcome_of (fst (run_sql E query w)) = Some (Rows cols rows)
    \<longrightarrow> (\<exists>cur s' p'. execute E (store w) None (executed_sql query) = Inr (cur, s', p')
          \<and> description cur = Some cols \<and> fetchall cur = Inr rows))
   \<and> (outcome_of (fst (run_sql E query w)) = Some Effect
    \<longrightarrow> (\<exists>cur s' p'. execute E (store w) None (executed_sql query) = Inr (cur, s', p')
          \<and> description cur = None))"
proof -
  have 1: "outcome_of (fst (run_sql E query w)) = Some (Rows cols rows)
           \<and> outcome_of (fst (run_sql E query w)) \<noteq> Some (Failure m)"
    if "connect E (store w) = None"
       "execute E (store w) None (executed_sql query) = Inr (cur, s', p')"
       "description cur = Some cols" "fetchall cur = Inr rows" "close E s' p' = None"
    using run_sql_rows(1)[OF that] by (simp add: outcome_rows)
  have 2: "outcome_of (fst (run_sql E query w)) = Some Effect
        \<and> store (snd (run_sql E query w)) = committed s' p'
        \<and> db_trace (snd (run_sql E query w)) =
            db_trace w @ [Connect, Execute (executed_sql query), Commit, Close]"
    if "connect E (store w) = None"
       "execute E (store w) None (executed_sql query) = Inr (cur, s', p')"
       "description cur = None" "commit E s' p' = None" "close E (committed s' p') p' = None"
    using run_sql_effect[OF that] by (simp add: outcome_effect)
  have 3: "\<exists>cur s' p'. execute E (store w) None (executed_sql query) = Inr (cur, s', p')
          \<and> description cur = Some cols \<and> fetchall cur = Inr rows"
    if h: "outcome_of (fst (run_sql E query w)) = Some (Rows cols rows)"
  proof -
    from outcome_rows_only[OF h] obtain d where
      k: "kind (fst (run_sql E query w)) = Some (str ''select'')"
      and d: "df (fst (run_sql E query w)) = Some d" "columns d = cols" "data d = rows"
      by blast
    from run_sql_select_only[OF k] obtain cur s' p' cols' rows' where
      "execute E (store w) None (executed_sql query) = Inr (cur, s', p')"
      "description cur = Some cols'" "fetchall cur = Inr rows'"
      "df (fst (run_sql E query w)) = Some \<lparr>columns = cols', data = rows'\<rparr>"
      by blast
    with d show ?thesis by auto
  qed
  have 4: "\<exists>cur s' p'. execute E (store w) None (executed_sql query) = Inr (cur, s', p')
          \<and> description cur = None"
    if h: "outcome_of (fst (run_sql E query w)) = Some Effect"
    using run_sql_other_only[OF outcome_effect_only[OF h]] by blast
  show ?thesis using 1 2 3 4 by blast
qed

theorem run_sql_classifies_witness:
  "outcome_of (fst (run_sql toy_engine (str ''select n from t;'') fresh_world)) =
     Some (Rows [str ''n''] [])
   \<and> outcome_of (fst (run_sql toy_engine (str ''delete from t'') fresh_world)) = Some Effect
   \<and> store (snd (run_sql toy_engine (str ''delete from t'') fresh_world)) =
       [str ''delete from t'']"
proof -
  have s: "store fresh_world = []" by (simp add: fresh_world_def)
  have a: "outcome_of (fst (run_sql toy_engine (str ''select n from t;'') fresh_world)) =
             Some (Rows [str ''n''] [])"
    using run_sql_classifies[where E = toy_engine and w = fresh_world
        and query = "str ''select n from t;''"
        and cur = "\<lparr>description = Some [str ''n''], fetchall = Inr []\<rparr>"
        and s' = "[]" and p' = None and cols = "[str ''n'']" and rows = "[]"]
    by (simp add: toy_fields executed_plain toy_select s)
  have b: "outcome_of (fst (run_sql toy_engine (str ''delete from t'') fresh_world)) = Some Effect
     \<and> store (snd (run_sql toy_engine (str ''delete from t'') fresh_world)) =
         [str ''delete from t'']"
    using run_sql_classifies[where E = toy_engine and w = fresh_world
        and query = "str ''delete from t''"
        and cur = "\<lparr>description = None, fetchall = Inr []\<rparr>"
        and s' = "[]" and p' = "Some [str ''delete from t'']"]
    by (simp add: toy_fields executed_plain toy_delete s committed_def)
  show ?thesis using a b by simp
qed

text \<open>
  Claim C4. When executing the statement raises, \<open>run_sql\<close> returns the error triple
  with the text of the exception unchanged; the same holds for an exception raised by any
  other call of the \<open>try\<close> block. A failure outcome always carries the text of an
  exception that was raised, and \<open>run_sql\<close> returns one of the three outcomes on every
  input: no exception leaves it.
\<close>

theorem run_sql_failure_verbatim:
  "(connect E (store w) = None \<and> execute E (store w) None (executed_sql query) = Inl e
    \<longrightarrow> fst (run_sql E query w) =
          \<lparr>df = None, error_message = Some (str_of_exc e), kind = None\<rparr>)
   \<and> (fst (run_sql_try E query w) = Inl e
    \<longrightarrow> outcome_of (fst (run_sql E query w)) = Some (Failure (str_of_exc e)))
   \<and> (outcome_of (fst (run_sql E query w)) = Some (Failure m)
    \<longrightarrow> (\<exists>e'. fst (run_sql_try E query w) = Inl e' \<and> str_of_exc e' = m))
   \<and> (\<exists>out. outcome_of (fst (run_sql E query w)) = Some out)"
proof -
  have 1: "fst (run_sql E query w) =
          \<lparr>df = None, error_message = Some (str_of_exc e), kind = None\<rparr>"
    if "connect E (store w) = None" "execute E (store w) None (executed_sql query) = Inl e"
    using that by (simp add: run_sql_def run_sql_steps)
  have 2: "outcome_of (fst (run_sql E query w)) = Some (Failure (str_of_exc e))"
    if "fst (run_sql_try E query w) = Inl e"
    using that by (cases "run_sql_try E query w") (simp add: run_sql_raised outcome_failure)
  have 3: "\<exists>e'. fst (run_sql_try E query w) = Inl e' \<and> str_of_exc e' = m"
    if h: "outcome_of (fst (run_sql E query w)) = Some (Failure m)"
  proof (cases "run_sql_try E query w")
    case (Pair x w')
    show ?thesis
    proof (cases x)
      case (Inl e')
      then show ?thesis using h Pair by (simp add: run_sql_raised outcome_failure)
    next
      case (Inr r)
      then have eq: "run_sql E query w = (r, w')" using Pair by (simp add: run_sql_returned)
      have "(kind r = Some (str ''select'') \<and> df r \<noteq> None) \<or> kind r = Some (str ''other'')"
        using run_sql_try_kind Pair Inr by blast
      then show ?thesis using h eq by (auto simp: outcome_of_def str_def)
    qed
  qed
  show ?thesis using 1 2 3 run_sql_outcome_total by blast
qed

theorem run_sql_failure_verbatim_witness:
  "fst (run_sql toy_engine (str ''selec 1'') fresh_world) =
     \<lparr>df = None, error_message = Some (str ''near selec: syntax error''), kind = None\<rparr>"
  using run_sql_failure_verbatim[where E = toy_engine and w = fresh_world
      and query = "str ''selec 1''" and e = "PyException (str ''near selec: syntax error'')"]
  by (simp add: toy_fields executed_plain toy_error)

text \<open>
  Claim C5, at an input where it fails. The statement \<open>selec 1\<close> is a syntax error for
  the engine: \<open>run_sql\<close> returns the failure, and the calls made are the connect and
  the execute only. The connection is not closed when the function returns; after a
  successful statement it is.
\<close>

theorem run_sql_failure_leaves_connection_open:
  "outcome_of (fst (run_sql toy_engine (str ''selec 1'') fresh_world)) =
     Some (Failure (str ''near selec: syntax error''))
   \<and> db_trace (snd (run_sql toy_engine (str ''selec 1'') fresh_world)) =
       [Connect, Execute (str ''selec 1'')]
   \<and> open_conns (snd (run_sql toy_engine (str ''selec 1'') fresh_world)) = 1
   \<and> open_conns (snd (run_sql toy_engine (str ''select n from t;'') fresh_world)) = 0"
  by (simp add: run_sql_def run_sql_steps toy_fields executed_plain toy_error toy_select
      fresh_world_def outcome_of_def)

text \<open>
  Claim C10, amended. When \<open>run_sql\<close> returns rows, the calls made to the engine are
  connect, execute, fetchall and close, with no commit, and the connection is closed. The
  store is then the one the execution of the statement left: what the statement changed
  in the connection's transaction is dropped, and what the engine wrote to the store
  itself stays. More generally no commit is issued, and the store is the one the
  execution left, as soon as the executed statement has a description.
\<close>

theorem run_sql_rows_without_commit:
  "(kind (fst (run_sql E query w)) = Some (str ''select'')
    \<longrightarrow> db_trace (snd (run_sql E query w)) =
          db_trace w @ [Connect, Execute (executed_sql query), FetchAll, Close]
        \<and> open_conns (snd (run_sql E query w)) = open_conns w
        \<and> (\<exists>cur s' p'. execute E (store w) None (executed_sql query) = Inr (cur, s', p')
              \<and> store (snd (run_sql E query w)) = s'))
   \<and> (connect E (store w) = None
      \<and> execute E (store w) None (executed_sql query) = Inr (cur, s', p')
      \<and> description cur = Some cols
    \<longrightarrow> store (snd (run_sql E query w)) = s'
        \<and> (\<exists>evs. db_trace (snd (run_sql E query w)) = db_trace w @ evs \<and> Commit \<notin> set evs))"
proof -
  have 1: "db_trace (snd (run_sql E query w)) =
          db_trace w @ [Connect, Execute (executed_sql query), FetchAll, Close]
        \<and> open_conns (snd (run_sql E query w)) = open_conns w
        \<and> (\<exists>cur s' p'. execute E (store w) None (executed_sql query) = Inr (cur, s', p')
              \<and> store (snd (run_sql E query w)) = s')"
    if k: "kind (fst (run_sql E query w)) = Some (str ''select'')"
  proof -
    from run_sql_select_only[OF k] obtain cur s' p' cols rows where
      h: "connect E (store w) = None"
         "execute E (store w) None (executed_sql query) = Inr (cur, s', p')"
         "description cur = Some cols" "fetchall cur = Inr rows" "close E s' p' = None"
      by blast
    show ?thesis using run_sql_rows(2,3,4)[OF h] h(2) by blast
  qed
  have 2: "store (snd (run_sql E query w)) = s'
        \<and> (\<exists>evs. db_trace (snd (run_sql E query w)) = db_trace w @ evs \<and> Commit \<notin> set evs)"
    if "connect E (store w) = None"
       "execute E (store w) None (executed_sql query) = Inr (cur, s', p')"
       "description cur = Some cols"
    using that unfolding run_sql_try_world
    by (auto simp: run_sql_steps Let_def split: sum.splits option.splits)
  show ?thesis using 1 2 by blast
qed

text \<open>The theorem at an \<open>insert\<close> with a \<open>returning\<close> clause: the row is returned and
  the insert, pending in the transaction, is dropped.\<close>

theorem run_sql_rows_without_commit_witness:
  "db_trace (snd (run_sql toy_engine (str ''insert into t values (1) returning n'') fresh_world)) =
     db_trace fresh_world
       @ [Connect, Execute (executed_sql (str ''insert into t values (1) returning n'')),
          FetchAll, Close]
   \<and> store (snd (run_sql toy_engine (str ''insert into t values (1) returning n'') fresh_world)) =
       []"
proof -
  let ?q = "str ''insert into t values (1) returning n''"
  have k: "kind (fst (run_sql toy_engine ?q fresh_world)) = Some (str ''select'')"
    by (simp add: run_sql_def run_sql_steps toy_fields executed_plain toy_returning)
  have e: "execute toy_engine (store fresh_world) None (executed_sql ?q) =
             Inr (\<lparr>description = Some [str ''n''], fetchall = Inr [[0]]\<rparr>, [], Some [?q])"
    by (simp add: toy_fields executed_plain toy_returning fresh_world_def)
  from run_sql_rows_without_commit[where E = toy_engine and w = fresh_world and query = ?q
      and cur = "\<lparr>description = Some [str ''n''], fetchall = Inr [[0]]\<rparr>"
      and s' = "[]" and p' = "Some [?q]" and cols = "[str ''n'']"]
  show ?thesis using k e by (simp add: toy_fields fresh_world_def)
qed

text \<open>
  A statement that starts with \<open>with\<close> and inserts with a \<open>returning\<close> clause is run
  by the engine outside a transaction: rows are returned, no commit is issued, and the
  store has changed.
\<close>

theorem run_sql_rows_store_counterexample:
  "kind (fst (run_sql toy_engine
           (str ''with x as (select 1) insert into t select * from x returning n'')
           fresh_world)) = Some (str ''select'')
   \<and> db_trace (snd (run_sql toy_engine
           (str ''with x as (select 1) insert into t select * from x returning n'')
           fresh_world)) =
       [Connect, Execute (str ''with x as (select 1) insert into t select * from x returning n''),
        FetchAll, Close]
   \<and> store fresh_world = []
   \<and> store (snd (run_sql toy_engine
           (str ''with x as (select 1) insert into t select * from x returning n'')
           fresh_world)) =
       [str ''with x as (select 1) insert into t select * from x returning n'']"
  by (simp add: run_sql_def run_sql_steps toy_fields executed_plain toy_with fresh_world_def
      Let_def)

section \<open>The chat turn\<close>

lemma draw_fields [simp]:
  "messages (draw ws st) = messages st" "page (draw ws st) = page st @ ws"
  "calls (draw ws st) = calls st" "llm_log (draw ws st) = llm_log st" "db (draw ws st) = db st"
  by (simp_all add: draw_def)

lemma append_message_fields [simp]:
  "messages (append_message r c st) = messages st @ [\<lparr>role = r, content = c\<rparr>]"
  "page (append_message r c st) = page st"
  "calls (append_message r c st) = calls st" "llm_log (append_message r c st) = llm_log st"
  "db (append_message r c st) = db st"
  by (simp_all add: append_message_def)

lemma report_first_fields [simp]:
  "calls (report_first r st) = calls st" "llm_log (report_first r st) = llm_log st"
  "db (report_first r st) = db st"
  by (simp_all add: report_first_def)

lemma report_after_fix_fields [simp]:
  "calls (report_after_fix r st) = calls st" "llm_log (report_after_fix r st) = llm_log st"
  "db (report_after_fix r st) = db st"
  by (simp_all add: report_after_fix_def)

lemma call_nl_to_sql_eq:
  "nl_to_sql chat u (llm_log st) = (g, log1) \<Longrightarrow>
     call_nl_to_sql chat u st = (g, st\<lparr>calls := calls st @ [CallNlToSql u], llm_log := log1\<rparr>)"
  by (simp add: call_nl_to_sql_def)

lemma call_fix_sql_eq:
  "fix_sql chat sql m u (llm_log st) = (g, log2) \<Longrightarrow>
     call_fix_sql chat sql m u st =
       (g, st\<lparr>calls := calls st @ [CallFixSql sql m u], llm_log := log2\<rparr>)"
  by (simp add: call_fix_sql_def)

lemma call_run_sql_eq:
  "run_sql E sql (db st) = (r, w') \<Longrightarrow>
     call_run_sql E sql st = (r, st\<lparr>calls := calls st @ [CallRunSql sql], db := w'\<rparr>)"
  by (simp add: call_run_sql_def)

lemma repair_calls:
  "\<exists>new. calls (repair chat E u sql e st) = calls st @ new
     \<and> (new = [CallFixSql sql (fmt e) u]
        \<or> (\<exists>fixed. new = [CallFixSql sql (fmt e) u, CallRunSql fixed]))"
proof (cases "fix_sql chat sql (fmt e) u (llm_log st)")
  case (Pair g log2)
  show ?thesis
  proof (cases g)
    case (GenError fix_err)
    then show ?thesis using Pair by (simp add: repair_def call_fix_sql_def)
  next
    case (Sql fixed)
    then show ?thesis using Pair
      by (auto simp: repair_def call_fix_sql_def call_run_sql_def split: prod.splits)
  qed
qed

lemma assistant_turn_calls:
  "\<exists>new. calls (assistant_turn chat E u st) = calls st @ new
     \<and> (new = [CallNlToSql u]
        \<or> (\<exists>sql. new = [CallNlToSql u, CallRunSql sql])
        \<or> (\<exists>sql m. new = [CallNlToSql u, CallRunSql sql, CallFixSql sql m u])
        \<or> (\<exists>sql m fixed.
              new = [CallNlToSql u, CallRunSql sql, CallFixSql sql m u, CallRunSql fixed]))"
proof (cases "nl_to_sql chat u (llm_log st)")
  case (Pair g log1)
  show ?thesis
  proof (cases g)
    case (GenError err)
    then show ?thesis using Pair by (simp add: assistant_turn_def call_nl_to_sql_def)
  next
    case (Sql sql)
    let ?st1 = "draw [StMarkdown (str ''**Generated SQL:**''), StCode sql]
                  (st\<lparr>calls := calls st @ [CallNlToSql u], llm_log := log1\<rparr>)"
    obtain r w1 where rw: "run_sql E sql (db ?st1) = (r, w1)" by (cases "run_sql E sql (db ?st1)")
    let ?st2 = "?st1\<lparr>calls := calls ?st1 @ [CallRunSql sql], db := w1\<rparr>"
    have at: "assistant_turn chat E u st =
                (if truthy (error_message r) then repair chat E u sql (error_message r) ?st2
                 else report_first r ?st2)"
      using Pair Sql call_run_sql_eq[OF rw]
      by (simp add: assistant_turn_def call_nl_to_sql_def)
    show ?thesis
    proof (cases "truthy (error_message r)")
      case False
      then show ?thesis using at by simp
    next
      case True
      obtain new where
        "calls (repair chat E u sql (error_message r) ?st2) = calls ?st2 @ new"
        "new = [CallFixSql sql (fmt (error_message r)) u]
          \<or> (\<exists>fixed. new = [CallFixSql sql (fmt (error_message r)) u, CallRunSql fixed])"
        using repair_calls by blast
      then show ?thesis using at True by auto
    qed
  qed
qed

lemma main_turn_calls:
  "\<exists>new. calls (main_turn chat E u st) = calls st @ new
     \<and> (new = [] \<or> new = [CallNlToSql u]
        \<or> (\<exists>sql. new = [CallNlToSql u, CallRunSql sql])
        \<or> (\<exists>sql m. new = [CallNlToSql u, CallRunSql sql, CallFixSql sql m u])
        \<or> (\<exists>sql m fixed.
              new = [CallNlToSql u, CallRunSql sql, CallFixSql sql m u, CallRunSql fixed]))"
proof (cases "u = []")
  case True
  then show ?thesis by (simp add: main_turn_def)
next
  case False
  let ?st0 = "draw [StMarkdown u] (append_message (str ''user'') u st)"
  have c: "calls ?st0 = calls st" by simp
  have m: "main_turn chat E u st = assistant_turn chat E u ?st0"
    using False by (simp add: main_turn_def)
  obtain new where n: "calls (assistant_turn chat E u ?st0) = calls ?st0 @ new"
     "new = [CallNlToSql u]
        \<or> (\<exists>sql. new = [CallNlToSql u, CallRunSql sql])
        \<or> (\<exists>sql m. new = [CallNlToSql u, CallRunSql sql, CallFixSql sql m u])
        \<or> (\<exists>sql m fixed.
              new = [CallNlToSql u, CallRunSql sql, CallFixSql sql m u, CallRunSql fixed])"
    using assistant_turn_calls[of chat E u ?st0] by blast
  have "calls (main_turn chat E u st) = calls st @ new" using m n(1) c by simp
  then show ?thesis using n(2) by blast
qed

lemmas turn_steps =
  main_turn_def assistant_turn_def repair_def call_nl_to_sql_def call_fix_sql_def
  call_run_sql_def

lemma report_first_page: "\<exists>ws. page (report_first r st) = page st @ ws"
  by (simp add: report_first_def)

lemma report_after_fix_page: "\<exists>ws. page (report_after_fix r st) = page st @ ws"
  by (simp add: report_after_fix_def)

lemma report_first_message:
  "\<exists>c. messages (report_first r st) = messages st @ [\<lparr>role = (str ''assistant''), content = c\<rparr>]
       \<and> c \<in> set first_run_texts"
  by (simp add: report_first_def first_run_texts_def)

lemma report_after_fix_message:
  "\<exists>c. messages (report_after_fix r st) = messages st @ [\<lparr>role = (str ''assistant''), content = c\<rparr>]
       \<and> c \<in> set after_fix_texts"
  by (simp add: report_after_fix_def after_fix_texts_def)

lemma double_failure_run:
  assumes "u \<noteq> []" and "nl_to_sql chat u (llm_log st) = (Sql sql, log1)"
    and "run_sql E sql (db st) = (r1, w1)" and "error_message r1 = Some m1" and "m1 \<noteq> []"
    and "fix_sql chat sql m1 u log1 = (Sql fixed, log2)"
    and "run_sql E fixed w1 = (r2, w2)" and "error_message r2 = Some m2" and "m2 \<noteq> []"
  shows "calls (main_turn chat E u st) =
           calls st @ [CallNlToSql u, CallRunSql sql, CallFixSql sql m1 u, CallRunSql fixed]"
    and "messages (main_turn chat E u st) =
           messages st @ [\<lparr>role = (str ''user''), content = u\<rparr>,
                          \<lparr>role = (str ''assistant''),
                           content = cross_mark @ (str '' DB error after fix: '') @ m2\<rparr>]"
    and "llm_log (main_turn chat E u st) = log2"
    and "db (main_turn chat E u st) = w2"
  using assms by (simp_all add: turn_steps)

lemma nl_to_sql_log: "length (snd (nl_to_sql chat u log)) \<le> Suc (length log)"
  by (simp add: nl_to_sql_def)

lemma fix_sql_log: "length (snd (fix_sql chat sql m u log)) = Suc (length log)"
  by (simp add: fix_sql_def)

lemma repair_llm_log:
  "length (llm_log (repair chat E u sql e st)) = Suc (length (llm_log st))"
proof (cases "fix_sql chat sql (fmt e) u (llm_log st)")
  case (Pair g log2)
  then have l: "length log2 = Suc (length (llm_log st))"
    using fix_sql_log[of chat sql "fmt e" u "llm_log st"] by simp
  show ?thesis
  proof (cases g)
    case (GenError fix_err)
    then show ?thesis using Pair l by (simp add: repair_def call_fix_sql_def)
  next
    case (Sql fixed)
    then show ?thesis using Pair l
      by (simp add: repair_def call_fix_sql_def call_run_sql_def split: prod.splits)
  qed
qed

lemma assistant_turn_llm_log:
  "length (llm_log (assistant_turn chat E u st)) \<le> length (llm_log st) + 2"
proof (cases "nl_to_sql chat u (llm_log st)")
  case (Pair g log1)
  then have l: "length log1 \<le> Suc (length (llm_log st))"
    using nl_to_sql_log[of chat u "llm_log st"] by simp
  show ?thesis
  proof (cases g)
    case (GenError err)
    then show ?thesis using Pair l by (simp add: assistant_turn_def call_nl_to_sql_def)
  next
    case (Sql sql)
    let ?st1 = "draw [StMarkdown (str ''**Generated SQL:**''), StCode sql]
                  (st\<lparr>calls := calls st @ [CallNlToSql u], llm_log := log1\<rparr>)"
    obtain r w1 where rw: "run_sql E sql (db ?st1) = (r, w1)" by (cases "run_sql E sql (db ?st1)")
    let ?st2 = "?st1\<lparr>calls := calls ?st1 @ [CallRunSql sql], db := w1\<rparr>"
    have at: "assistant_turn chat E u st =
                (if truthy (error_message r) then repair chat E u sql (error_message r) ?st2
                 else report_first r ?st2)"
      using Pair Sql call_run_sql_eq[OF rw]
      by (simp add: assistant_turn_def call_nl_to_sql_def)
    have "llm_log ?st2 = log1" by simp
    then show ?thesis
      using at l repair_llm_log[of chat E u sql "error_message r" ?st2] by simp
  qed
qed

lemma main_turn_llm_log:
  "length (llm_log (main_turn chat E u st)) \<le> length (llm_log st) + 2"
  using assistant_turn_llm_log[of chat E u "draw [StMarkdown u] (append_message (str ''user'') u st)"]
  by (simp add: main_turn_def)

lemma repair_page: "\<exists>ws. page (repair chat E u sql e st) = page st @ ws"
proof (cases "fix_sql chat sql (fmt e) u (llm_log st)")
  case (Pair g log2)
  show ?thesis
  proof (cases g)
    case (GenError fix_err)
    then show ?thesis using Pair by (simp add: repair_def call_fix_sql_def)
  next
    case (Sql fixed)
    obtain r2 w2 where r: "run_sql E fixed (db st) = (r2, w2)" by (cases "run_sql E fixed (db st)")
    show ?thesis
    proof (cases "truthy (error_message r2)")
      case True
      then show ?thesis using Pair Sql r
        by (simp add: repair_def call_fix_sql_def call_run_sql_def Let_def)
    next
      case False
      then show ?thesis using Pair Sql r
        by (simp add: repair_def call_fix_sql_def call_run_sql_def report_after_fix_def Let_def)
    qed
  qed
qed

lemma repair_fixed_page:
  assumes "fix_sql chat sql (fmt e) u (llm_log st) = (Sql fixed, log2)"
  shows "\<exists>ws. page (repair chat E u sql e st) =
           page st @ [StWarning ((str ''Database error: '') @ fmt e),
                      StMarkdown (str ''Trying to fix the SQL using the model...''),
                      StMarkdown (str ''**Fixed SQL:**''), StCode fixed] @ ws"
proof -
  obtain r2 w2 where r: "run_sql E fixed (db st) = (r2, w2)" by (cases "run_sql E fixed (db st)")
  show ?thesis
  proof (cases "truthy (error_message r2)")
    case True
    then show ?thesis using assms r
      by (simp add: repair_def call_fix_sql_def call_run_sql_def Let_def)
  next
    case False
    then show ?thesis using assms r
      by (simp add: repair_def call_fix_sql_def call_run_sql_def report_after_fix_def Let_def)
  qed
qed

lemma generated_turn:
  assumes "u \<noteq> []" and "nl_to_sql chat u (llm_log st) = (Sql sql, log1)"
    and "run_sql E sql (db st) = (r1, w1)"
  shows "\<exists>st2. main_turn chat E u st =
           (if truthy (error_message r1) then repair chat E u sql (error_message r1) st2
            else report_first r1 st2)
         \<and> page st2 = page st @ [StMarkdown u, StMarkdown (str ''**Generated SQL:**''), StCode sql]
         \<and> messages st2 = messages st @ [\<lparr>role = (str ''user''), content = u\<rparr>]
         \<and> llm_log st2 = log1 \<and> db st2 = w1"
proof -
  let ?st0 = "draw [StMarkdown u] (append_message (str ''user'') u st)"
  let ?st1 = "draw [StMarkdown (str ''**Generated SQL:**''), StCode sql]
                (?st0\<lparr>calls := calls ?st0 @ [CallNlToSql u], llm_log := log1\<rparr>)"
  let ?st2 = "?st1\<lparr>calls := calls ?st1 @ [CallRunSql sql], db := w1\<rparr>"
  have "main_turn chat E u st =
           (if truthy (error_message r1) then repair chat E u sql (error_message r1) ?st2
            else report_first r1 ?st2)"
    using assms
    by (simp add: main_turn_def assistant_turn_def call_nl_to_sql_def call_run_sql_def)
  moreover have "page ?st2 = page st @ [StMarkdown u, StMarkdown (str ''**Generated SQL:**''), StCode sql]"
    by simp
  moreover have "messages ?st2 = messages st @ [\<lparr>role = (str ''user''), content = u\<rparr>]"
    by simp
  moreover have "llm_log ?st2 = log1" "db ?st2 = w1" by simp_all
  ultimately show ?thesis by blast
qed

lemma str_Nil_iff: "str s = [] \<longleftrightarrow> s = []"
  by (simp add: str_def)

lemma nl_to_sql_reply:
  "py_strip u \<noteq> [] \<Longrightarrow>
     nl_to_sql (reply_with c) u log =
       (if first_token (cleaned c) \<in> set statement_keywords then Sql (cleaned c)
        else GenError (str ''Model did not return a valid SQL statement. It returned:\<newline>''
                        @ cleaned c),
        log @ [nl_request u])"
proof -
  assume a: "py_strip u \<noteq> []"
  then have "u \<noteq> []" by (auto simp: py_strip_def)
  then show ?thesis using a
    by (simp add: nl_to_sql_def nl_to_sql_try_def reply_with_def check_completion_eq)
qed

lemma fix_sql_reply:
  "fix_sql (reply_with c) sql m u log =
       (if first_token (cleaned c) \<in> set statement_keywords then Sql (cleaned c)
        else GenError (str ''Fixed SQL is not a valid statement. It returned:\<newline>''
                        @ cleaned c),
        log @ [fix_request sql m u])"
  by (simp add: fix_sql_def fix_sql_try_def reply_with_def check_completion_eq)

lemma nl_to_sql_reply_then:
  "py_strip u \<noteq> [] \<Longrightarrow>
     nl_to_sql (reply_then a b) u log =
       (if first_token (cleaned a) \<in> set statement_keywords then Sql (cleaned a)
        else GenError (str ''Model did not return a valid SQL statement. It returned:\<newline>''
                        @ cleaned a),
        log @ [nl_request u])"
proof -
  assume s: "py_strip u \<noteq> []"
  then have "u \<noteq> []" by (auto simp: py_strip_def)
  moreover have "reply_then a b (nl_request u) = Inr a"
    by (simp add: reply_then_def nl_request_def str_eq_iff)
  ultimately show ?thesis using s
    by (simp add: nl_to_sql_def nl_to_sql_try_def check_completion_eq)
qed

lemma fix_sql_reply_then:
  "fix_sql (reply_then a b) sql m u log =
       (if first_token (cleaned b) \<in> set statement_keywords then Sql (cleaned b)
        else GenError (str ''Fixed SQL is not a valid statement. It returned:\<newline>''
                        @ cleaned b),
        log @ [fix_request sql m u])"
proof -
  have "reply_then a b (fix_request sql m u) = Inr b"
    by (simp add: reply_then_def fix_request_def)
  then show ?thesis by (simp add: fix_sql_def fix_sql_try_def check_completion_eq)
qed

lemma plain_cleaned:
  "cleaned (str ''drop table t'') = str ''drop table t''"
  "cleaned (str ''select n from t'') = str ''select n from t''"
  "cleaned (str ''hello'') = str ''hello''"
  "cleaned (str ''select nosuch from students'') = str ''select nosuch from students''"
  "cleaned (str ''select name from students'') = str ''select name from students''"
  by (simp_all add: cleaned_def drop_terminator_def fence_cleaned_def strip_fences_def py_eval)

lemma plain_tokens:
  "first_token (str ''hello'') = str ''hello''"
  "first_token (str ''select nosuch from students'') = str ''select''"
  "first_token (str ''select name from students'') = str ''select''"
  by (simp_all add: first_token_def py_eval)

lemma plain_keywords:
  "str ''drop'' \<in> set statement_keywords" "str ''select'' \<in> set statement_keywords"
  "str ''hello'' \<notin> set statement_keywords"
  by (simp_all add: statement_keywords_def str_eq_iff)

lemma plain_requests:
  "py_strip (str ''drop it'') \<noteq> []" "py_strip (str ''show all'') \<noteq> []"
  "str ''drop it'' \<noteq> []" "str ''show all'' \<noteq> []"
  by (simp_all add: py_eval)

lemma toy_drop_fails:
  "fst (run_sql toy_engine (str ''drop table t'') w) =
     \<lparr>df = None, error_message = Some (str ''near drop: syntax error''), kind = None\<rparr>"
proof -
  have t: "toy_execute (store w) None (str ''drop table t'') =
             Inl (PyException (str ''near drop: syntax error''))"
    by (simp add: toy_execute_def toy_tokens str_eq_iff str_append[symmetric])
  show ?thesis using t by (simp add: run_sql_def run_sql_steps toy_fields executed_plain)
qed

lemma toy_select_any:
  "fst (run_sql toy_engine (str ''select n from t'') w) =
     \<lparr>df = Some \<lparr>columns = [str ''n''], data = map (\<lambda>t. [length t]) (store w)\<rparr>,
      error_message = None, kind = Some (str ''select'')\<rparr>"
  by (simp add: run_sql_def run_sql_steps toy_fields executed_plain toy_select)

lemma exhausted_fields:
  "connect exhausted_engine s = None" "execute exhausted_engine = exhausted_execute"
  by (simp_all add: exhausted_engine_def)

lemma exhausted_first:
  "fst (run_sql exhausted_engine (str ''select nosuch from students'') w) =
     \<lparr>df = None, error_message = Some (str ''no such column: nosuch''), kind = None\<rparr>"
proof -
  have e: "executed_sql (str ''select nosuch from students'') = str ''select nosuch from students''"
    by (simp add: executed_sql_def py_eval)
  have p: "py_in (str ''nosuch'') (str ''select nosuch from students'')"
    by (simp add: str_def py_startswith_def)
  show ?thesis using e p
    by (simp add: run_sql_def run_sql_steps exhausted_fields exhausted_execute_def)
qed

lemma exhausted_second:
  "fst (run_sql exhausted_engine (str ''select name from students'') w) =
     \<lparr>df = None, error_message = Some [], kind = None\<rparr>"
proof -
  have e: "executed_sql (str ''select name from students'') = str ''select name from students''"
    by (simp add: executed_sql_def py_eval)
  have p: "\<not> py_in (str ''nosuch'') (str ''select name from students'')"
    by (simp add: str_def py_startswith_def)
  show ?thesis using e p
    by (simp add: run_sql_def run_sql_steps exhausted_fields exhausted_execute_def)
qed

lemma fresh_fields:
  "messages fresh_session = []" "page fresh_session = []" "calls fresh_session = []"
  "llm_log fresh_session = []" "db fresh_session = fresh_world"
  by (simp_all add: fresh_session_def)

text \<open>What holds of every turn: at most one call of the generator, one of the repairer
  and two of the executor, at most two requests to the completion service, and the
  report of a double failure when both executions hand back a non-empty message.\<close>

lemma main_turn_bounded:
  "(\<exists>new. calls (main_turn chat E u st) = calls st @ new
      \<and> length (filter is_generation_call new) \<le> 1
      \<and> length (filter is_repair_call new) \<le> 1
      \<and> length (filter is_execution_call new) \<le> 2)
   \<and> length (llm_log (main_turn chat E u st)) \<le> length (llm_log st) + 2
   \<and> (u \<noteq> [] \<and> nl_to_sql chat u (llm_log st) = (Sql sql, log1)
      \<and> run_sql E sql (db st) = (r1, w1) \<and> error_message r1 = Some m1 \<and> m1 \<noteq> []
      \<and> fix_sql chat sql m1 u log1 = (Sql fixed, log2)
      \<and> run_sql E fixed w1 = (r2, w2) \<and> error_message r2 = Some m2 \<and> m2 \<noteq> []
    \<longrightarrow> calls (main_turn chat E u st) =
          calls st @ [CallNlToSql u, CallRunSql sql, CallFixSql sql m1 u, CallRunSql fixed]
        \<and> messages (main_turn chat E u st) =
            messages st @ [\<lparr>role = (str ''user''), content = u\<rparr>,
                           \<lparr>role = (str ''assistant''),
                            content = cross_mark @ (str '' DB error after fix: '') @ m2\<rparr>]
        \<and> llm_log (main_turn chat E u st) = log2
        \<and> db (main_turn chat E u st) = w2)"
proof -
  obtain new where n: "calls (main_turn chat E u st) = calls st @ new"
    "new = [] \<or> new = [CallNlToSql u]
        \<or> (\<exists>sql. new = [CallNlToSql u, CallRunSql sql])
        \<or> (\<exists>sql m. new = [CallNlToSql u, CallRunSql sql, CallFixSql sql m u])
        \<or> (\<exists>sql m fixed.
              new = [CallNlToSql u, CallRunSql sql, CallFixSql sql m u, CallRunSql fixed])"
    using main_turn_calls by blast
  from n(2) have "length (filter is_generation_call new) \<le> 1
      \<and> length (filter is_repair_call new) \<le> 1
      \<and> length (filter is_execution_call new) \<le> 2"
    by auto
  with n(1) have 1: "\<exists>new. calls (main_turn chat E u st) = calls st @ new
      \<and> length (filter is_generation_call new) \<le> 1
      \<and> length (filter is_repair_call new) \<le> 1
      \<and> length (filter is_execution_call new) \<le> 2"
    by blast
  have 3: "calls (main_turn chat E u st) =
          calls st @ [CallNlToSql u, CallRunSql sql, CallFixSql sql m1 u, CallRunSql fixed]
        \<and> messages (main_turn chat E u st) =
            messages st @ [\<lparr>role = (str ''user''), content = u\<rparr>,
                           \<lparr>role = (str ''assistant''),
                            content = cross_mark @ (str '' DB error after fix: '') @ m2\<rparr>]
        \<and> llm_log (main_turn chat E u st) = log2
        \<and> db (main_turn chat E u st) = w2"
    if "u \<noteq> []" "nl_to_sql chat u (llm_log st) = (Sql sql, log1)"
      "run_sql E sql (db st) = (r1, w1)" "error_message r1 = Some m1" "m1 \<noteq> []"
      "fix_sql chat sql m1 u log1 = (Sql fixed, log2)"
      "run_sql E fixed w1 = (r2, w2)" "error_message r2 = Some m2" "m2 \<noteq> []"
    using double_failure_run[OF that] by simp
  show ?thesis using 1 main_turn_llm_log[of chat E u st] 3 by blast
qed

text \<open>
  Claim C1, at an input where it fails. The generated statement names a column that
  does not exist and is refused with the diagnostic for it; the repaired statement then
  fails with an exception whose text is empty. Both executions failed, and the calls are
  generate, execute, repair, execute, with no third cycle; but the turn does not end with
  a double-failure report: the history records that the command was executed
  successfully after the fix.
\<close>

theorem main_turn_empty_diagnostic_reported_as_success:
  "outcome_of (fst (run_sql exhausted_engine (str ''select nosuch from students'') fresh_world)) =
     Some (Failure (str ''no such column: nosuch''))
   \<and> outcome_of (fst (run_sql exhausted_engine (str ''select name from students'')
         (snd (run_sql exhausted_engine (str ''select nosuch from students'') fresh_world)))) =
       Some (Failure [])
   \<and> calls (main_turn
         (reply_then (str ''select nosuch from students'') (str ''select name from students''))
         exhausted_engine (str ''show all'') fresh_session) =
       [CallNlToSql (str ''show all''), CallRunSql (str ''select nosuch from students''),
        CallFixSql (str ''select nosuch from students'') (str ''no such column: nosuch'')
          (str ''show all''),
        CallRunSql (str ''select name from students'')]
   \<and> messages (main_turn
         (reply_then (str ''select nosuch from students'') (str ''select name from students''))
         exhausted_engine (str ''show all'') fresh_session) =
       [\<lparr>role = str ''user'', content = str ''show all''\<rparr>,
        \<lparr>role = str ''assistant'',
         content = check_mark
           @ str '' Command executed successfully on the database (after fix).''\<rparr>]"
proof -
  let ?chat = "reply_then (str ''select nosuch from students'') (str ''select name from students'')"
  let ?q1 = "str ''select nosuch from students''"
  let ?q2 = "str ''select name from students''"
  obtain w1 where r1: "run_sql exhausted_engine ?q1 fresh_world =
      (\<lparr>df = None, error_message = Some (str ''no such column: nosuch''), kind = None\<rparr>, w1)"
    using exhausted_first[of fresh_world] by (cases "run_sql exhausted_engine ?q1 fresh_world") simp
  obtain w2 where r2: "run_sql exhausted_engine ?q2 w1 =
      (\<lparr>df = None, error_message = Some [], kind = None\<rparr>, w2)"
    using exhausted_second[of w1] by (cases "run_sql exhausted_engine ?q2 w1") simp
  have n: "nl_to_sql ?chat (str ''show all'') [] = (Sql ?q1, [nl_request (str ''show all'')])"
    by (simp add: nl_to_sql_reply_then plain_requests plain_cleaned plain_tokens plain_keywords)
  have f: "fix_sql ?chat ?q1 (str ''no such column: nosuch'') (str ''show all'')
             [nl_request (str ''show all'')] =
           (Sql ?q2, [nl_request (str ''show all''),
                      fix_request ?q1 (str ''no such column: nosuch'') (str ''show all'')])"
    by (simp add: fix_sql_reply_then plain_cleaned plain_tokens plain_keywords)
  have a: "outcome_of (fst (run_sql exhausted_engine ?q1 fresh_world)) =
     Some (Failure (str ''no such column: nosuch''))"
    by (simp add: exhausted_first outcome_failure)
  have b: "outcome_of (fst (run_sql exhausted_engine ?q2
         (snd (run_sql exhausted_engine ?q1 fresh_world)))) = Some (Failure [])"
    by (simp add: exhausted_second outcome_failure)
  have c: "calls (main_turn ?chat exhausted_engine (str ''show all'') fresh_session) =
       [CallNlToSql (str ''show all''), CallRunSql ?q1,
        CallFixSql ?q1 (str ''no such column: nosuch'') (str ''show all''), CallRunSql ?q2]"
    using n f r1 r2
    by (simp add: turn_steps fresh_fields plain_requests str_Nil_iff)
  have d: "messages (main_turn ?chat exhausted_engine (str ''show all'') fresh_session) =
       [\<lparr>role = str ''user'', content = str ''show all''\<rparr>,
        \<lparr>role = str ''assistant'',
         content = check_mark
           @ str '' Command executed successfully on the database (after fix).''\<rparr>]"
    using n f r1 r2
    by (simp add: turn_steps fresh_fields plain_requests str_Nil_iff report_after_fix_def)
  show ?thesis using a b c d by blast
qed

text \<open>
  Claim C8, amended. Whenever the generator returned a statement, the page of the turn
  shows it in a code block right after the user's message, ahead of any outcome; when the
  first execution failed and the repairer returned a statement, the page shows that one in
  a code block as well. The entry added to the history is the outcome text alone, built
  without the statement: one of three fixed texts after a first execution without error,
  one of three others after a repaired one, the database error message and the repairer's
  error message when the repair failed, the second database error message when the
  repaired statement failed, and for a generation error the error message, which is also
  all the page shows.
\<close>

theorem main_turn_shows_sql_on_page:
  "(u \<noteq> [] \<and> nl_to_sql chat u (llm_log st) = (Sql sql, log1)
    \<longrightarrow> (\<exists>ws. page (main_turn chat E u st) =
            page st @ [StMarkdown u, StMarkdown (str ''**Generated SQL:**''), StCode sql] @ ws))
   \<and> (u \<noteq> [] \<and> nl_to_sql chat u (llm_log st) = (Sql sql, log1)
      \<and> run_sql E sql (db st) = (r1, w1) \<and> truthy (error_message r1)
      \<and> fix_sql chat sql (fmt (error_message r1)) u log1 = (Sql fixed, log2)
    \<longrightarrow> (\<exists>ws. page (main_turn chat E u st) =
            page st @ [StMarkdown u, StMarkdown (str ''**Generated SQL:**''), StCode sql,
                       StWarning ((str ''Database error: '') @ fmt (error_message r1)),
                       StMarkdown (str ''Trying to fix the SQL using the model...''),
                       StMarkdown (str ''**Fixed SQL:**''), StCode fixed] @ ws))
   \<and> (u \<noteq> [] \<and> nl_to_sql chat u (llm_log st) = (Sql sql, log1)
      \<and> run_sql E sql (db st) = (r1, w1) \<and> \<not> truthy (error_message r1)
    \<longrightarrow> (\<exists>c. messages (main_turn chat E u st) =
            messages st @ [\<lparr>role = (str ''user''), content = u\<rparr>,
                           \<lparr>role = (str ''assistant''), content = c\<rparr>]
          \<and> c \<in> set first_run_texts))
   \<and> (u \<noteq> [] \<and> nl_to_sql chat u (llm_log st) = (Sql sql, log1)
      \<and> run_sql E sql (db st) = (r1, w1) \<and> truthy (error_message r1)
      \<and> fix_sql chat sql (fmt (error_message r1)) u log1 = (Sql fixed, log2)
      \<and> run_sql E fixed w1 = (r2, w2) \<and> \<not> truthy (error_message r2)
    \<longrightarrow> (\<exists>c. messages (main_turn chat E u st) =
            messages st @ [\<lparr>role = (str ''user''), content = u\<rparr>,
                           \<lparr>role = (str ''assistant''), content = c\<rparr>]
          \<and> c \<in> set after_fix_texts))
   \<and> (u \<noteq> [] \<and> nl_to_sql chat u (llm_log st) = (Sql sql, log1)
      \<and> run_sql E sql (db st) = (r1, w1) \<and> truthy (error_message r1)
      \<and> fix_sql chat sql (fmt (error_message r1)) u log1 = (GenError fix_err, log2)
    \<longrightarrow> messages (main_turn chat E u st) =
          messages st @ [\<lparr>role = str ''user'', content = u\<rparr>,
                         \<lparr>role = str ''assistant'',
                          content = cross_mark @ str '' DB error: '' @ fmt (error_message r1)
                            @ str ''\<newline>\<newline>And fix also failed: '' @ fix_err\<rparr>])
   \<and> (u \<noteq> [] \<and> nl_to_sql chat u (llm_log st) = (Sql sql, log1)
      \<and> run_sql E sql (db st) = (r1, w1) \<and> truthy (error_message r1)
      \<and> fix_sql chat sql (fmt (error_message r1)) u log1 = (Sql fixed, log2)
      \<and> run_sql E fixed w1 = (r2, w2) \<and> truthy (error_message r2)
    \<longrightarrow> messages (main_turn chat E u st) =
          messages st @ [\<lparr>role = str ''user'', content = u\<rparr>,
                         \<lparr>role = str ''assistant'',
                          content = cross_mark @ str '' DB error after fix: ''
                            @ fmt (error_message r2)\<rparr>])
   \<and> (u \<noteq> [] \<and> nl_to_sql chat u (llm_log st) = (GenError err, log1)
    \<longrightarrow> page (main_turn chat E u st) = page st @ [StMarkdown u, StError err]
        \<and> messages (main_turn chat E u st) =
            messages st @ [\<lparr>role = (str ''user''), content = u\<rparr>,
                           \<lparr>role = (str ''assistant''), content = cross_mark @ (str '' '') @ err\<rparr>])"
proof -
  have 1: "\<exists>ws. page (main_turn chat E u st) =
            page st @ [StMarkdown u, StMarkdown (str ''**Generated SQL:**''), StCode sql] @ ws"
    if a: "u \<noteq> []" "nl_to_sql chat u (llm_log st) = (Sql sql, log1)"
  proof -
    obtain r1 w1 where r: "run_sql E sql (db st) = (r1, w1)" by (cases "run_sql E sql (db st)")
    from generated_turn[OF a r] obtain st2 where
      m: "main_turn chat E u st =
           (if truthy (error_message r1) then repair chat E u sql (error_message r1) st2
            else report_first r1 st2)"
      and p: "page st2 = page st @ [StMarkdown u, StMarkdown (str ''**Generated SQL:**''), StCode sql]"
      by blast
    obtain ws where "page (main_turn chat E u st) = page st2 @ ws"
      using m repair_page[of chat E u sql "error_message r1" st2] report_first_page[of r1 st2]
      by (cases "truthy (error_message r1)") auto
    then show ?thesis using p by simp
  qed
  have 2: "\<exists>ws. page (main_turn chat E u st) =
            page st @ [StMarkdown u, StMarkdown (str ''**Generated SQL:**''), StCode sql,
                       StWarning ((str ''Database error: '') @ fmt (error_message r1)),
                       StMarkdown (str ''Trying to fix the SQL using the model...''),
                       StMarkdown (str ''**Fixed SQL:**''), StCode fixed] @ ws"
    if a: "u \<noteq> []" "nl_to_sql chat u (llm_log st) = (Sql sql, log1)"
      and r: "run_sql E sql (db st) = (r1, w1)" and t: "truthy (error_message r1)"
      and f: "fix_sql chat sql (fmt (error_message r1)) u log1 = (Sql fixed, log2)"
  proof -
    from generated_turn[OF a r] obtain st2 where
      m: "main_turn chat E u st = repair chat E u sql (error_message r1) st2"
      and p: "page st2 = page st @ [StMarkdown u, StMarkdown (str ''**Generated SQL:**''), StCode sql]"
      and l: "llm_log st2 = log1"
      using t by auto
    have "fix_sql chat sql (fmt (error_message r1)) u (llm_log st2) = (Sql fixed, log2)"
      using f l by simp
    from repair_fixed_page[OF this, of E] obtain ws where
      "page (repair chat E u sql (error_message r1) st2) =
           page st2 @ [StWarning ((str ''Database error: '') @ fmt (error_message r1)),
                      StMarkdown (str ''Trying to fix the SQL using the model...''),
                      StMarkdown (str ''**Fixed SQL:**''), StCode fixed] @ ws"
      by blast
    then show ?thesis using m p by simp
  qed
  have 3: "\<exists>c. messages (main_turn chat E u st) =
            messages st @ [\<lparr>role = (str ''user''), content = u\<rparr>,
                           \<lparr>role = (str ''assistant''), content = c\<rparr>]
          \<and> c \<in> set first_run_texts"
    if a: "u \<noteq> []" "nl_to_sql chat u (llm_log st) = (Sql sql, log1)"
      and r: "run_sql E sql (db st) = (r1, w1)" and t: "\<not> truthy (error_message r1)"
  proof -
    from generated_turn[OF a r] obtain st2 where
      m: "main_turn chat E u st = report_first r1 st2"
      and p: "messages st2 = messages st @ [\<lparr>role = (str ''user''), content = u\<rparr>]"
      using t by auto
    show ?thesis using m p report_first_message[of r1 st2] by auto
  qed
  have 5: "\<exists>c. messages (main_turn chat E u st) =
            messages st @ [\<lparr>role = (str ''user''), content = u\<rparr>,
                           \<lparr>role = (str ''assistant''), content = c\<rparr>]
          \<and> c \<in> set after_fix_texts"
    if a: "u \<noteq> []" "nl_to_sql chat u (llm_log st) = (Sql sql, log1)"
      and r: "run_sql E sql (db st) = (r1, w1)" and t: "truthy (error_message r1)"
      and f: "fix_sql chat sql (fmt (error_message r1)) u log1 = (Sql fixed, log2)"
      and r2: "run_sql E fixed w1 = (r2, w2)" and t2: "\<not> truthy (error_message r2)"
  proof -
    from generated_turn[OF a r] obtain st2 where
      m: "main_turn chat E u st = repair chat E u sql (error_message r1) st2"
      and p: "messages st2 = messages st @ [\<lparr>role = (str ''user''), content = u\<rparr>]"
      and l: "llm_log st2 = log1" and d: "db st2 = w1"
      using t by auto
    let ?st3 = "draw [StMarkdown (str ''**Fixed SQL:**''), StCode fixed]
                  ((draw [StWarning ((str ''Database error: '') @ fmt (error_message r1)),
                          StMarkdown (str ''Trying to fix the SQL using the model...'')] st2)
                    \<lparr>calls := calls st2 @ [CallFixSql sql (fmt (error_message r1)) u],
                      llm_log := log2\<rparr>)"
    let ?st4 = "?st3\<lparr>calls := calls ?st3 @ [CallRunSql fixed], db := w2\<rparr>"
    have "repair chat E u sql (error_message r1) st2 = report_after_fix r2 ?st4"
      using f r2 t2 l d by (simp add: repair_def call_fix_sql_def call_run_sql_def Let_def)
    moreover have "messages ?st4 = messages st2" by simp
    ultimately show ?thesis using m p report_after_fix_message[of r2 ?st4] by auto
  qed
  have 6: "messages (main_turn chat E u st) =
          messages st @ [\<lparr>role = str ''user'', content = u\<rparr>,
                         \<lparr>role = str ''assistant'',
                          content = cross_mark @ str '' DB error: '' @ fmt (error_message r1)
                            @ str ''\<newline>\<newline>And fix also failed: '' @ fix_err\<rparr>]"
    if "u \<noteq> []" "nl_to_sql chat u (llm_log st) = (Sql sql, log1)"
      "run_sql E sql (db st) = (r1, w1)" "truthy (error_message r1)"
      "fix_sql chat sql (fmt (error_message r1)) u log1 = (GenError fix_err, log2)"
    using that by (simp add: turn_steps)
  have 7: "messages (main_turn chat E u st) =
          messages st @ [\<lparr>role = str ''user'', content = u\<rparr>,
                         \<lparr>role = str ''assistant'',
                          content = cross_mark @ str '' DB error after fix: ''
                            @ fmt (error_message r2)\<rparr>]"
    if "u \<noteq> []" "nl_to_sql chat u (llm_log st) = (Sql sql, log1)"
      "run_sql E sql (db st) = (r1, w1)" "truthy (error_message r1)"
      "fix_sql chat sql (fmt (error_message r1)) u log1 = (Sql fixed, log2)"
      "run_sql E fixed w1 = (r2, w2)" "truthy (error_message r2)"
    using that by (simp add: turn_steps)
  have 4: "page (main_turn chat E u st) = page st @ [StMarkdown u, StError err]
        \<and> messages (main_turn chat E u st) =
            messages st @ [\<lparr>role = (str ''user''), content = u\<rparr>,
                           \<lparr>role = (str ''assistant''), content = cross_mark @ (str '' '') @ err\<rparr>]"
    if "u \<noteq> []" "nl_to_sql chat u (llm_log st) = (GenError err, log1)"
    using that by (simp add: turn_steps)
  show ?thesis using 1 2 3 4 5 6 7 by blast
qed

theorem main_turn_shows_sql_on_page_witness:
  "(\<exists>ws. page (main_turn (reply_with (str ''drop table t'')) toy_engine (str ''drop it'')
                   fresh_session) =
      [StMarkdown (str ''drop it''), StMarkdown (str ''**Generated SQL:**''),
       StCode (str ''drop table t''),
       StWarning (str ''Database error: '' @ str ''near drop: syntax error''),
       StMarkdown (str ''Trying to fix the SQL using the model...''),
       StMarkdown (str ''**Fixed SQL:**''), StCode (str ''drop table t'')] @ ws)
   \<and> messages (main_turn (reply_with (str ''drop table t'')) toy_engine (str ''drop it'')
                  fresh_session) =
       [\<lparr>role = str ''user'', content = str ''drop it''\<rparr>,
        \<lparr>role = str ''assistant'',
         content = cross_mark @ str '' DB error after fix: '' @ str ''near drop: syntax error''\<rparr>]
   \<and> messages (main_turn (reply_then (str ''drop table t'') (str ''hello'')) toy_engine
                  (str ''drop it'') fresh_session) =
       [\<lparr>role = str ''user'', content = str ''drop it''\<rparr>,
        \<lparr>role = str ''assistant'',
         content = cross_mark @ str '' DB error: '' @ str ''near drop: syntax error''
           @ str ''\<newline>\<newline>And fix also failed: ''
           @ str ''Fixed SQL is not a valid statement. It returned:\<newline>'' @ str ''hello''\<rparr>]
   \<and> (\<exists>c. messages (main_turn (reply_with (str ''select n from t'')) toy_engine
                      (str ''show all'') fresh_session) =
            [\<lparr>role = str ''user'', content = str ''show all''\<rparr>,
             \<lparr>role = str ''assistant'', content = c\<rparr>]
          \<and> c \<in> set first_run_texts)
   \<and> (\<exists>c. messages (main_turn (reply_then (str ''drop table t'') (str ''select n from t''))
                      toy_engine (str ''show all'') fresh_session) =
            [\<lparr>role = str ''user'', content = str ''show all''\<rparr>,
             \<lparr>role = str ''assistant'', content = c\<rparr>]
          \<and> c \<in> set after_fix_texts)
   \<and> page (main_turn (reply_with (str ''hello'')) toy_engine (str ''show all'') fresh_session) =
       [StMarkdown (str ''show all''),
        StError (str ''Model did not return a valid SQL statement. It returned:\<newline>''
                   @ str ''hello'')]"
proof -
  let ?drop = "str ''drop table t''"
  let ?sel = "str ''select n from t''"
  let ?err = "str ''near drop: syntax error''"
  let ?r1 = "fst (run_sql toy_engine ?drop fresh_world)"
  let ?w1 = "snd (run_sql toy_engine ?drop fresh_world)"
  let ?rd = "fst (run_sql toy_engine ?drop ?w1)"
  let ?wd = "snd (run_sql toy_engine ?drop ?w1)"
  have e1: "error_message ?r1 = Some ?err" by (simp add: toy_drop_fails)
  have ed: "error_message ?rd = Some ?err" by (simp add: toy_drop_fails)
  have t: "truthy (Some ?err)" by (simp add: str_Nil_iff)
  note gen = nl_to_sql_reply fix_sql_reply nl_to_sql_reply_then fix_sql_reply_then
    plain_requests plain_cleaned plain_tokens toy_tokens plain_keywords fresh_fields
  have a: "\<exists>ws. page (main_turn (reply_with ?drop) toy_engine (str ''drop it'') fresh_session) =
      [StMarkdown (str ''drop it''), StMarkdown (str ''**Generated SQL:**''), StCode ?drop,
       StWarning (str ''Database error: '' @ ?err),
       StMarkdown (str ''Trying to fix the SQL using the model...''),
       StMarkdown (str ''**Fixed SQL:**''), StCode ?drop] @ ws"
    using main_turn_shows_sql_on_page[where chat = "reply_with ?drop"
        and E = toy_engine and u = "str ''drop it''" and st = fresh_session
        and sql = ?drop and ?log1.0 = "[nl_request (str ''drop it'')]"
        and ?r1.0 = ?r1 and ?w1.0 = ?w1 and fixed = ?drop
        and ?log2.0 = "[nl_request (str ''drop it''), fix_request ?drop ?err (str ''drop it'')]"]
      e1 t
    by (simp add: gen)
  have b: "messages (main_turn (reply_with ?drop) toy_engine (str ''drop it'') fresh_session) =
       [\<lparr>role = str ''user'', content = str ''drop it''\<rparr>,
        \<lparr>role = str ''assistant'',
         content = cross_mark @ str '' DB error after fix: '' @ ?err\<rparr>]"
    using main_turn_shows_sql_on_page[where chat = "reply_with ?drop"
        and E = toy_engine and u = "str ''drop it''" and st = fresh_session
        and sql = ?drop and ?log1.0 = "[nl_request (str ''drop it'')]"
        and ?r1.0 = ?r1 and ?w1.0 = ?w1 and fixed = ?drop
        and ?log2.0 = "[nl_request (str ''drop it''), fix_request ?drop ?err (str ''drop it'')]"
        and ?r2.0 = ?rd and ?w2.0 = ?wd]
      e1 ed t
    by (simp add: gen)
  have c: "messages (main_turn (reply_then ?drop (str ''hello'')) toy_engine (str ''drop it'')
                  fresh_session) =
       [\<lparr>role = str ''user'', content = str ''drop it''\<rparr>,
        \<lparr>role = str ''assistant'',
         content = cross_mark @ str '' DB error: '' @ ?err
           @ str ''\<newline>\<newline>And fix also failed: ''
           @ str ''Fixed SQL is not a valid statement. It returned:\<newline>'' @ str ''hello''\<rparr>]"
    using main_turn_shows_sql_on_page[where chat = "reply_then ?drop (str ''hello'')"
        and E = toy_engine and u = "str ''drop it''" and st = fresh_session
        and sql = ?drop and ?log1.0 = "[nl_request (str ''drop it'')]"
        and ?r1.0 = ?r1 and ?w1.0 = ?w1
        and fix_err = "str ''Fixed SQL is not a valid statement. It returned:\<newline>''
                         @ str ''hello''"
        and ?log2.0 = "[nl_request (str ''drop it''), fix_request ?drop ?err (str ''drop it'')]"]
      e1 t
    by (simp add: gen)
  let ?r = "fst (run_sql toy_engine ?sel fresh_world)"
  let ?w = "snd (run_sql toy_engine ?sel fresh_world)"
  have e2: "error_message ?r = None" by (simp add: toy_select_any)
  have d: "\<exists>c. messages (main_turn (reply_with ?sel) toy_engine (str ''show all'')
                      fresh_session) =
            [\<lparr>role = str ''user'', content = str ''show all''\<rparr>,
             \<lparr>role = str ''assistant'', content = c\<rparr>]
          \<and> c \<in> set first_run_texts"
    using main_turn_shows_sql_on_page[where chat = "reply_with ?sel"
        and E = toy_engine and u = "str ''show all''" and st = fresh_session
        and sql = ?sel and ?log1.0 = "[nl_request (str ''show all'')]"
        and ?r1.0 = ?r and ?w1.0 = ?w]
      e2
    by (simp add: gen)
  let ?r2 = "fst (run_sql toy_engine ?sel ?w1)"
  let ?w2 = "snd (run_sql toy_engine ?sel ?w1)"
  have e3: "error_message ?r2 = None" by (simp add: toy_select_any)
  have e: "\<exists>c. messages (main_turn (reply_then ?drop ?sel) toy_engine (str ''show all'')
                      fresh_session) =
            [\<lparr>role = str ''user'', content = str ''show all''\<rparr>,
             \<lparr>role = str ''assistant'', content = c\<rparr>]
          \<and> c \<in> set after_fix_texts"
    using main_turn_shows_sql_on_page[where chat = "reply_then ?drop ?sel"
        and E = toy_engine and u = "str ''show all''" and st = fresh_session
        and sql = ?drop and ?log1.0 = "[nl_request (str ''show all'')]"
        and ?r1.0 = ?r1 and ?w1.0 = ?w1 and fixed = ?sel
        and ?log2.0 = "[nl_request (str ''show all''), fix_request ?drop ?err (str ''show all'')]"
        and ?r2.0 = ?r2 and ?w2.0 = ?w2]
      e1 e3 t
    by (simp add: gen)
  have f: "page (main_turn (reply_with (str ''hello'')) toy_engine (str ''show all'')
                   fresh_session) =
       [StMarkdown (str ''show all''),
        StError (str ''Model did not return a valid SQL statement. It returned:\<newline>''
                   @ str ''hello'')]"
    using main_turn_shows_sql_on_page[where chat = "reply_with (str ''hello'')"
        and E = toy_engine and u = "str ''show all''" and st = fresh_session
        and err = "str ''Model did not return a valid SQL statement. It returned:\<newline>''
                     @ str ''hello''"
        and ?log1.0 = "[nl_request (str ''show all'')]"]
    by (simp add: gen)
  show ?thesis using a b c d e f by blast
qed

text \<open>
  A turn whose statement \<open>select n from t\<close> runs and matches no row: the history entry
  is the fixed text for that outcome, and the statement does not occur in it.
\<close>

theorem history_without_sql_counterexample:
  "messages (main_turn (reply_with (str ''select n from t'')) toy_engine (str ''show all'')
               fresh_session) =
     [\<lparr>role = str ''user'', content = str ''show all''\<rparr>,
      \<lparr>role = str ''assistant'',
       content = check_mark @ str '' Query ran successfully, but no rows matched.''\<rparr>]
   \<and> \<not> py_in (str ''select n from t'')
         (check_mark @ str '' Query ran successfully, but no rows matched.'')"
proof -
  have n: "nl_to_sql (reply_with (str ''select n from t'')) (str ''show all'') [] =
             (Sql (str ''select n from t''), [nl_request (str ''show all'')])"
    by (simp add: nl_to_sql_reply plain_requests plain_cleaned toy_tokens plain_keywords)
  obtain w' where r: "run_sql toy_engine (str ''select n from t'') fresh_world =
             (\<lparr>df = Some \<lparr>columns = [str ''n''], data = []\<rparr>, error_message = None,
                kind = Some (str ''select'')\<rparr>, w')"
    using toy_select_any[of fresh_world]
    by (cases "run_sql toy_engine (str ''select n from t'') fresh_world")
       (simp add: fresh_world_def)
  have 1: "messages (main_turn (reply_with (str ''select n from t'')) toy_engine
                      (str ''show all'') fresh_session) =
     [\<lparr>role = str ''user'', content = str ''show all''\<rparr>,
      \<lparr>role = str ''assistant'',
       content = check_mark @ str '' Query ran successfully, but no rows matched.''\<rparr>]"
    using n r
    by (simp add: main_turn_def assistant_turn_def call_nl_to_sql_def call_run_sql_def
        report_first_def df_empty_def fresh_fields plain_requests)
  have 2: "\<not> py_in (str ''select n from t'')
              (check_mark @ str '' Query ran successfully, but no rows matched.'')"
    by (simp add: check_mark_def str_def py_startswith_def)
  show ?thesis using 1 2 by simp
qed

end
